theory Spec2Isabelle
  imports Main
begin

section \<open>The dynamic dispatcher of the Lightning-Qubit simulator\<close>

text \<open>
  A shallow embedding of \<^verbatim>\<open>DynamicDispatcher.hpp\<close>: the class
  \<^verbatim>\<open>DynamicDispatcher<PrecisionT>\<close> becomes a record of its six hash maps, every
  member function a HOL function that takes the dispatcher and, where the C++ writes
  through \<^verbatim>\<open>data\<close>, the memory the kernels mutate, and returns what the C++ returns
  together with that memory. An exception is a value \<open>Inl e\<close>.

  The enumerations \<^verbatim>\<open>GateOperation\<close>, \<^verbatim>\<open>GeneratorOperation\<close> and \<^verbatim>\<open>KernelType\<close>
  are declared in headers outside this file and are only compared for equality here:
  they are the type variables \<open>'g\<close>, \<open>'n\<close> and \<open>'k\<close>. \<^verbatim>\<open>PrecisionT\<close> is \<open>'p\<close>,
  \<^verbatim>\<open>std::complex<PrecisionT>\<close> is \<open>'c\<close>, and \<open>'s\<close> is the memory reached through the
  \<^verbatim>\<open>data\<close> pointer (with whatever else a registered callable writes to).
  \<^verbatim>\<open>size_t\<close> values are lengths of vectors and qubit counts, modelled as \<open>nat\<close>.
\<close>

subsection \<open>Exceptions\<close>

text \<open>
  \<open>out_of_range\<close> is the \<^verbatim>\<open>std::out_of_range\<close> of \<^verbatim>\<open>unordered_map::at\<close> and of
  \<^verbatim>\<open>string_view::substr\<close>; \<open>invalid_argument\<close> carries the message of the
  \<^verbatim>\<open>std::invalid_argument\<close> thrown in the file. \<open>undefined_behaviour\<close> marks a read
  past the end of a vector through \<^verbatim>\<open>operator[]\<close>, where C++ promises nothing.
\<close>

text \<open>
  Modelled from the spec: the outcome \<open>assertion_failure\<close> of a failing
  \<^verbatim>\<open>PL_ASSERT\<close>. The macro is defined in \<^verbatim>\<open>Error.hpp\<close>, which is not among the
  sources; the specification calls its failure a fatal assertion that terminates
  abnormally and is none of the recoverable error categories.
\<close>

datatype error =
    out_of_range
  | invalid_argument string
  | assertion_failure
  | undefined_behaviour

subsection \<open>Hash maps\<close>

text \<open>
  A \<^verbatim>\<open>std::unordered_map\<close> is an association list. \<^verbatim>\<open>find\<close> returns the entry of
  a key, \<^verbatim>\<open>emplace\<close> inserts only when the key has no entry, \<^verbatim>\<open>at\<close> throws when
  the key has none. Iteration visits the entries in list order (C++ leaves the order
  open; nothing below depends on it).
\<close>

type_synonym ('k, 'v) unordered_map = "('k \<times> 'v) list"

definition umap_find :: "('k, 'v) unordered_map \<Rightarrow> 'k \<Rightarrow> 'v option" where
  "umap_find m k = map_of m k"

definition umap_contains :: "('k, 'v) unordered_map \<Rightarrow> 'k \<Rightarrow> bool" where
  "umap_contains m k = (case umap_find m k of None \<Rightarrow> False | Some v \<Rightarrow> True)"

definition umap_emplace :: "('k, 'v) unordered_map \<Rightarrow> 'k \<Rightarrow> 'v \<Rightarrow> ('k, 'v) unordered_map" where
  "umap_emplace m k v = (case umap_find m k of None \<Rightarrow> m @ [(k, v)] | Some w \<Rightarrow> m)"

definition umap_at :: "('k, 'v) unordered_map \<Rightarrow> 'k \<Rightarrow> error + 'v" where
  "umap_at m k = (case umap_find m k of None \<Rightarrow> Inl out_of_range | Some v \<Rightarrow> Inr v)"

subsection \<open>Callables and the dispatcher\<close>

datatype MatrixOperation = SingleQubitOp | TwoQubitOp | MultiQubitOp

text \<open>
  The three callable types, with the arguments in the order of the calls at the end of
  \<^verbatim>\<open>applyOperation\<close>, \<^verbatim>\<open>applyGenerator\<close> and \<^verbatim>\<open>applyMatrix\<close>. A callable is a
  function of the memory behind \<^verbatim>\<open>data\<close>; a generator also returns its scalar.
\<close>

type_synonym ('s, 'p) GateFunc = "'s \<Rightarrow> nat \<Rightarrow> nat list \<Rightarrow> bool \<Rightarrow> 'p list \<Rightarrow> 's"

type_synonym ('s, 'p) GeneratorFunc = "'s \<Rightarrow> nat \<Rightarrow> nat list \<Rightarrow> bool \<Rightarrow> 'p \<times> 's"

type_synonym ('s, 'c) MatrixFunc = "'s \<Rightarrow> nat \<Rightarrow> 'c list \<Rightarrow> nat list \<Rightarrow> bool \<Rightarrow> 's"

record ('g, 'n, 'k, 's, 'p, 'c) DynamicDispatcher =
  str_to_gates :: "(string, 'g) unordered_map"
  str_to_gntrs :: "(string, 'n) unordered_map"
  gate_kernels :: "('g \<times> 'k, ('s, 'p) GateFunc) unordered_map"
  generator_kernels :: "('n \<times> 'k, ('s, 'p) GeneratorFunc) unordered_map"
  matrix_kernels :: "(MatrixOperation \<times> 'k, ('s, 'c) MatrixFunc) unordered_map"
  kernel_names :: "('k, string) unordered_map"

subsection \<open>The name tables\<close>

text \<open>
  \<^verbatim>\<open>string_view::substr(pos)\<close> throws when \<open>pos\<close> is beyond the end of the string.
\<close>

definition substr :: "string \<Rightarrow> nat \<Rightarrow> error + string" where
  "substr s pos = (if length s < pos then Inl out_of_range else Inr (drop pos s))"

definition prefix :: string where
  "prefix = ''Generator''"

text \<open>
  \<^verbatim>\<open>generatorNamesWithoutPrefix\<close> walks \<^verbatim>\<open>GateConstant::generator_names\<close>, a table of
  \<^verbatim>\<open>Constant.hpp\<close> that is not among the sources and is a parameter here. The C++
  function is evaluated at compile time, where a throwing \<^verbatim>\<open>substr\<close> rejects the
  program; the model returns the exception.
\<close>

fun generatorNamesWithoutPrefix :: "('n \<times> string) list \<Rightarrow> error + ('n \<times> string) list" where
  "generatorNamesWithoutPrefix [] = Inr []"
| "generatorNamesWithoutPrefix ((gntr_op, gntr_name) # rest) =
     (case substr gntr_name (length prefix) of
        Inl e \<Rightarrow> Inl e
      | Inr stripped \<Rightarrow>
          (case generatorNamesWithoutPrefix rest of
             Inl e \<Rightarrow> Inl e
           | Inr res \<Rightarrow> Inr ((gntr_op, stripped) # res)))"

text \<open>
  The constructor, from the two catalogue tables \<^verbatim>\<open>gate_names\<close> and
  \<^verbatim>\<open>generator_names\<close>: each loop emplaces the name of an entry with its operation.
\<close>

definition emplace_names :: "('o \<times> string) list \<Rightarrow> (string, 'o) unordered_map" where
  "emplace_names names = foldl (\<lambda>m (op, name). umap_emplace m name op) [] names"

definition DynamicDispatcher_init ::
  "('g \<times> string) list \<Rightarrow> ('n \<times> string) list \<Rightarrow> error + ('g, 'n, 'k, 's, 'p, 'c) DynamicDispatcher" where
  "DynamicDispatcher_init gate_names generator_names =
     (case generatorNamesWithoutPrefix generator_names of
        Inl e \<Rightarrow> Inl e
      | Inr gntr_names_without_prefix \<Rightarrow>
          Inr \<lparr> str_to_gates = emplace_names gate_names,
                str_to_gntrs = emplace_names gntr_names_without_prefix,
                gate_kernels = [],
                generator_kernels = [],
                matrix_kernels = [],
                kernel_names = [] \<rparr>)"

definition strToGateOp :: "('g, 'n, 'k, 's, 'p, 'c) DynamicDispatcher \<Rightarrow> string \<Rightarrow> error + 'g" where
  "strToGateOp d gate_name = umap_at (str_to_gates d) gate_name"

definition hasGateOp :: "('g, 'n, 'k, 's, 'p, 'c) DynamicDispatcher \<Rightarrow> string \<Rightarrow> bool" where
  "hasGateOp d gate_name = umap_contains (str_to_gates d) gate_name"

definition strToGeneratorOp :: "('g, 'n, 'k, 's, 'p, 'c) DynamicDispatcher \<Rightarrow> string \<Rightarrow> error + 'n" where
  "strToGeneratorOp d gntr_name = umap_at (str_to_gntrs d) gntr_name"

subsection \<open>Kernel names\<close>

definition registeredKernels :: "('g, 'n, 'k, 's, 'p, 'c) DynamicDispatcher \<Rightarrow> 'k list" where
  "registeredKernels d = map fst (kernel_names d)"

definition isRegisteredKernel :: "('g, 'n, 'k, 's, 'p, 'c) DynamicDispatcher \<Rightarrow> 'k \<Rightarrow> bool" where
  "isRegisteredKernel d kern = umap_contains (kernel_names d) kern"

definition registerKernelName ::
  "'k \<Rightarrow> string \<Rightarrow> ('g, 'n, 'k, 's, 'p, 'c) DynamicDispatcher \<Rightarrow> ('g, 'n, 'k, 's, 'p, 'c) DynamicDispatcher" where
  "registerKernelName kern name d = d\<lparr>kernel_names := umap_emplace (kernel_names d) kern name\<rparr>"

definition getKernelName :: "('g, 'n, 'k, 's, 'p, 'c) DynamicDispatcher \<Rightarrow> 'k \<Rightarrow> error + string" where
  "getKernelName d kern = umap_at (kernel_names d) kern"

subsection \<open>Registration\<close>

definition registerGateOperation ::
  "'g \<Rightarrow> 'k \<Rightarrow> ('s, 'p) GateFunc \<Rightarrow> ('g, 'n, 'k, 's, 'p, 'c) DynamicDispatcher
     \<Rightarrow> ('g, 'n, 'k, 's, 'p, 'c) DynamicDispatcher" where
  "registerGateOperation gate_op kern func d =
     d\<lparr>gate_kernels := umap_emplace (gate_kernels d) (gate_op, kern) func\<rparr>"

definition registerGeneratorOperation ::
  "'n \<Rightarrow> 'k \<Rightarrow> ('s, 'p) GeneratorFunc \<Rightarrow> ('g, 'n, 'k, 's, 'p, 'c) DynamicDispatcher
     \<Rightarrow> ('g, 'n, 'k, 's, 'p, 'c) DynamicDispatcher" where
  "registerGeneratorOperation gntr_op kern func d =
     d\<lparr>generator_kernels := umap_emplace (generator_kernels d) (gntr_op, kern) func\<rparr>"

definition registerMatrixOperation ::
  "MatrixOperation \<Rightarrow> 'k \<Rightarrow> ('s, 'c) MatrixFunc \<Rightarrow> ('g, 'n, 'k, 's, 'p, 'c) DynamicDispatcher
     \<Rightarrow> ('g, 'n, 'k, 's, 'p, 'c) DynamicDispatcher" where
  "registerMatrixOperation mat_op kern func d =
     d\<lparr>matrix_kernels := umap_emplace (matrix_kernels d) (mat_op, kern) func\<rparr>"

definition isRegistered_gate :: "('g, 'n, 'k, 's, 'p, 'c) DynamicDispatcher \<Rightarrow> 'g \<Rightarrow> 'k \<Rightarrow> bool" where
  "isRegistered_gate d gate_op kern = (umap_find (gate_kernels d) (gate_op, kern) \<noteq> None)"

definition isRegistered_generator :: "('g, 'n, 'k, 's, 'p, 'c) DynamicDispatcher \<Rightarrow> 'n \<Rightarrow> 'k \<Rightarrow> bool" where
  "isRegistered_generator d gntr_op kern = (umap_find (generator_kernels d) (gntr_op, kern) \<noteq> None)"

definition isRegistered_matrix ::
  "('g, 'n, 'k, 's, 'p, 'c) DynamicDispatcher \<Rightarrow> MatrixOperation \<Rightarrow> 'k \<Rightarrow> bool" where
  "isRegistered_matrix d mat_op kern = (umap_find (matrix_kernels d) (mat_op, kern) \<noteq> None)"

text \<open>
  The kernel modules register at start-up, in an order this file does not fix. A
  \<open>registration\<close> is one such call and \<open>registerAll\<close> runs a sequence of them.
\<close>

datatype ('g, 'n, 'k, 's, 'p, 'c) registration =
    RegisterGate 'g 'k "('s, 'p) GateFunc"
  | RegisterGenerator 'n 'k "('s, 'p) GeneratorFunc"
  | RegisterMatrix MatrixOperation 'k "('s, 'c) MatrixFunc"
  | RegisterKernelName 'k string

fun register ::
  "('g, 'n, 'k, 's, 'p, 'c) DynamicDispatcher \<Rightarrow> ('g, 'n, 'k, 's, 'p, 'c) registration
     \<Rightarrow> ('g, 'n, 'k, 's, 'p, 'c) DynamicDispatcher" where
  "register d (RegisterGate gate_op kern func) = registerGateOperation gate_op kern func d"
| "register d (RegisterGenerator gntr_op kern func) = registerGeneratorOperation gntr_op kern func d"
| "register d (RegisterMatrix mat_op kern func) = registerMatrixOperation mat_op kern func d"
| "register d (RegisterKernelName kern name) = registerKernelName kern name d"

definition registerAll ::
  "('g, 'n, 'k, 's, 'p, 'c) registration list \<Rightarrow> ('g, 'n, 'k, 's, 'p, 'c) DynamicDispatcher
     \<Rightarrow> ('g, 'n, 'k, 's, 'p, 'c) DynamicDispatcher" where
  "registerAll regs d = foldl register d regs"

subsection \<open>Applying a gate\<close>

text \<open>
  The two overloads of \<^verbatim>\<open>applyOperation\<close>: by gate name and by gate operation.
  In the first, \<^verbatim>\<open>strToGateOp\<close> is evaluated to build the key, before \<^verbatim>\<open>find\<close>.
\<close>

definition applyOperation_str ::
  "('g, 'n, 'k, 's, 'p, 'c) DynamicDispatcher \<Rightarrow> 'k \<Rightarrow> 's \<Rightarrow> nat \<Rightarrow> string \<Rightarrow> nat list \<Rightarrow> bool
     \<Rightarrow> 'p list \<Rightarrow> (error + unit) \<times> 's" where
  "applyOperation_str d kern data num_qubits op_name wires inverse' params =
     (case strToGateOp d op_name of
        Inl e \<Rightarrow> (Inl e, data)
      | Inr gate_op \<Rightarrow>
          (case umap_find (gate_kernels d) (gate_op, kern) of
             None \<Rightarrow>
               (Inl (invalid_argument
                  ''Cannot find a registered kernel for a given gate and kernel pair''), data)
           | Some func \<Rightarrow> (Inr (), func data num_qubits wires inverse' params)))"

definition applyOperation_op ::
  "('g, 'n, 'k, 's, 'p, 'c) DynamicDispatcher \<Rightarrow> 'k \<Rightarrow> 's \<Rightarrow> nat \<Rightarrow> 'g \<Rightarrow> nat list \<Rightarrow> bool
     \<Rightarrow> 'p list \<Rightarrow> (error + unit) \<times> 's" where
  "applyOperation_op d kern data num_qubits gate_op wires inverse' params =
     (case umap_find (gate_kernels d) (gate_op, kern) of
        None \<Rightarrow>
          (Inl (invalid_argument
             ''Cannot find a registered kernel for a given gate and kernel pair''), data)
      | Some func \<Rightarrow> (Inr (), func data num_qubits wires inverse' params))"

text \<open>
  The loop of \<^verbatim>\<open>applyOperations\<close>, from index \<open>i\<close>. When it runs, the length
  check has made \<open>ops\<close>, \<open>wires\<close> and \<open>params\<close> as long as \<open>numOperations\<close>;
  the length of \<open>inverse\<close> is never checked, and \<^verbatim>\<open>inverse[i]\<close> past its end is
  undefined. An exception of \<^verbatim>\<open>applyOperation\<close> leaves the loop with the memory as
  the earlier iterations wrote it.
\<close>

function applyOperations_loop ::
  "('g, 'n, 'k, 's, 'p, 'c) DynamicDispatcher \<Rightarrow> 'k \<Rightarrow> nat \<Rightarrow> string list \<Rightarrow> nat list list
     \<Rightarrow> bool list \<Rightarrow> 'p list list \<Rightarrow> nat \<Rightarrow> nat \<Rightarrow> 's \<Rightarrow> (error + unit) \<times> 's" where
  "applyOperations_loop d kern num_qubits ops wires inverse' params numOperations i data =
     (if i < numOperations then
        (if i < length inverse' then
           (case applyOperation_str d kern data num_qubits (ops ! i) (wires ! i) (inverse' ! i)
                   (params ! i) of
              (Inl e, data') \<Rightarrow> (Inl e, data')
            | (Inr u, data') \<Rightarrow>
                applyOperations_loop d kern num_qubits ops wires inverse' params numOperations
                  (i + 1) data')
         else (Inl undefined_behaviour, data))
      else (Inr (), data))"
  by pat_completeness auto
termination
  by (relation "measure (\<lambda>(d, kern, num_qubits, ops, wires, inverse', params, numOperations, i, data).
        numOperations - i)") auto

definition applyOperations ::
  "('g, 'n, 'k, 's, 'p, 'c) DynamicDispatcher \<Rightarrow> 'k \<Rightarrow> 's \<Rightarrow> nat \<Rightarrow> string list \<Rightarrow> nat list list
     \<Rightarrow> bool list \<Rightarrow> 'p list list \<Rightarrow> (error + unit) \<times> 's" where
  "applyOperations d kern data num_qubits ops wires inverse' params =
     (let numOperations = length ops in
      if numOperations \<noteq> length wires \<or> numOperations \<noteq> length params then
        (Inl (invalid_argument
           ''Invalid arguments: number of operations, wires, and parameters must all be equal''),
         data)
      else applyOperations_loop d kern num_qubits ops wires inverse' params numOperations 0 data)"

text \<open>The overload without parameters passes the empty parameter list to every gate.\<close>

function applyOperations_noparams_loop ::
  "('g, 'n, 'k, 's, 'p, 'c) DynamicDispatcher \<Rightarrow> 'k \<Rightarrow> nat \<Rightarrow> string list \<Rightarrow> nat list list
     \<Rightarrow> bool list \<Rightarrow> nat \<Rightarrow> nat \<Rightarrow> 's \<Rightarrow> (error + unit) \<times> 's" where
  "applyOperations_noparams_loop d kern num_qubits ops wires inverse' numOperations i data =
     (if i < numOperations then
        (if i < length inverse' then
           (case applyOperation_str d kern data num_qubits (ops ! i) (wires ! i) (inverse' ! i) [] of
              (Inl e, data') \<Rightarrow> (Inl e, data')
            | (Inr u, data') \<Rightarrow>
                applyOperations_noparams_loop d kern num_qubits ops wires inverse' numOperations
                  (i + 1) data')
         else (Inl undefined_behaviour, data))
      else (Inr (), data))"
  by pat_completeness auto
termination
  by (relation "measure (\<lambda>(d, kern, num_qubits, ops, wires, inverse', numOperations, i, data).
        numOperations - i)") auto

definition applyOperations_noparams ::
  "('g, 'n, 'k, 's, 'p, 'c) DynamicDispatcher \<Rightarrow> 'k \<Rightarrow> 's \<Rightarrow> nat \<Rightarrow> string list \<Rightarrow> nat list list
     \<Rightarrow> bool list \<Rightarrow> (error + unit) \<times> 's" where
  "applyOperations_noparams d kern data num_qubits ops wires inverse' =
     (let numOperations = length ops in
      if numOperations \<noteq> length wires then
        (Inl (invalid_argument
           ''Invalid arguments: number of operations, wires, and parameters must all be equal''),
         data)
      else applyOperations_noparams_loop d kern num_qubits ops wires inverse' numOperations 0 data)"

declare applyOperations_loop.simps [simp del]

declare applyOperations_noparams_loop.simps [simp del]

text \<open>
  The batch as the specification words it: the elements are taken in input order, each
  by one \<^verbatim>\<open>applyOperation\<close> that finishes before the next begins; the first
  failure ends the batch, the later elements are not run, and the memory stays as the
  earlier elements left it. \<open>batch_spec\<close> is this reading, on the list of the
  elements; it is compared with the loops of the source below.
\<close>

fun batch_spec ::
  "('g, 'n, 'k, 's, 'p, 'c) DynamicDispatcher \<Rightarrow> 'k \<Rightarrow> nat
     \<Rightarrow> (string \<times> nat list \<times> bool \<times> 'p list) list \<Rightarrow> 's \<Rightarrow> (error + unit) \<times> 's" where
  "batch_spec d kern num_qubits [] data = (Inr (), data)"
| "batch_spec d kern num_qubits ((op_name, ws, inv_flag, ps) # rest) data =
     (case applyOperation_str d kern data num_qubits op_name ws inv_flag ps of
        (Inl e, data') \<Rightarrow> (Inl e, data')
      | (Inr u, data') \<Rightarrow> batch_spec d kern num_qubits rest data')"

subsection \<open>Applying a matrix\<close>

text \<open>
  Modelled from the spec: \<^verbatim>\<open>exp2\<close> of \<^verbatim>\<open>Util.hpp\<close>, which is not among the
  sources. The specification has the size check compare the element count with
  \<open>4 ^ n\<close> for \<open>n\<close> wires, so \<open>exp2 m\<close> is the power \<open>2 ^ m\<close>.
\<close>

definition exp2 :: "nat \<Rightarrow> nat" where
  "exp2 n = 2 ^ n"

text \<open>
  \<^verbatim>\<open>applyMatrix\<close> on a pointer to the matrix (whose elements are the list
  \<open>matrix\<close>) and on a vector. The message of the first needs
  \<^verbatim>\<open>lookup(GateConstant::matrix_names, mat_op)\<close>; the table and \<^verbatim>\<open>lookup\<close> are in
  \<^verbatim>\<open>Constant.hpp\<close> and \<^verbatim>\<open>ConstantUtil.hpp\<close>, not among the sources, so the name
  of a matrix operation is the parameter \<open>matrix_names\<close>.
\<close>

definition applyMatrix_ptr ::
  "(MatrixOperation \<Rightarrow> string) \<Rightarrow> ('g, 'n, 'k, 's, 'p, 'c) DynamicDispatcher \<Rightarrow> 'k \<Rightarrow> 's \<Rightarrow> nat
     \<Rightarrow> 'c list \<Rightarrow> nat list \<Rightarrow> bool \<Rightarrow> (error + unit) \<times> 's" where
  "applyMatrix_ptr matrix_names d kern data num_qubits matrix wires inverse' =
     (if \<not> (num_qubits \<ge> length wires) then (Inl assertion_failure, data)
      else
        (let n_wires = length wires;
             mat_op = (if n_wires = 1 then SingleQubitOp
                       else if n_wires = 2 then TwoQubitOp
                       else MultiQubitOp)
         in case umap_find (matrix_kernels d) (mat_op, kern) of
              None \<Rightarrow>
                (Inl (invalid_argument
                   (matrix_names mat_op @ '' is not registered for the given kernel'')), data)
            | Some func \<Rightarrow> (Inr (), func data num_qubits matrix wires inverse')))"

definition applyMatrix_vec ::
  "(MatrixOperation \<Rightarrow> string) \<Rightarrow> ('g, 'n, 'k, 's, 'p, 'c) DynamicDispatcher \<Rightarrow> 'k \<Rightarrow> 's \<Rightarrow> nat
     \<Rightarrow> 'c list \<Rightarrow> nat list \<Rightarrow> bool \<Rightarrow> (error + unit) \<times> 's" where
  "applyMatrix_vec matrix_names d kern data num_qubits matrix wires inverse' =
     (if length matrix \<noteq> exp2 (2 * length wires) then
        (Inl (invalid_argument
           ''The size of matrix does not match with the given number of wires''), data)
      else applyMatrix_ptr matrix_names d kern data num_qubits matrix wires inverse')"

subsection \<open>Applying a generator\<close>

definition applyGenerator_op ::
  "('g, 'n, 'k, 's, 'p, 'c) DynamicDispatcher \<Rightarrow> 'k \<Rightarrow> 's \<Rightarrow> nat \<Rightarrow> 'n \<Rightarrow> nat list \<Rightarrow> bool
     \<Rightarrow> (error + 'p) \<times> 's" where
  "applyGenerator_op d kern data num_qubits gntr_op wires adj =
     (case umap_find (generator_kernels d) (gntr_op, kern) of
        None \<Rightarrow>
          (Inl (invalid_argument
             ''Cannot find a registered kernel for a given generator and kernel pair.''), data)
      | Some func \<Rightarrow>
          (case func data num_qubits wires adj of (scale, data') \<Rightarrow> (Inr scale, data')))"

definition applyGenerator_str ::
  "('g, 'n, 'k, 's, 'p, 'c) DynamicDispatcher \<Rightarrow> 'k \<Rightarrow> 's \<Rightarrow> nat \<Rightarrow> string \<Rightarrow> nat list \<Rightarrow> bool
     \<Rightarrow> (error + 'p) \<times> 's" where
  "applyGenerator_str d kern data num_qubits op_name wires adj =
     (case strToGeneratorOp d op_name of
        Inl e \<Rightarrow> (Inl e, data)
      | Inr gntr_op \<Rightarrow>
          (case umap_find (generator_kernels d) (gntr_op, kern) of
             None \<Rightarrow>
               (Inl (invalid_argument
                  ''Cannot find a registered kernel for a given generator and kernel pair.''), data)
           | Some func \<Rightarrow>
               (case func data num_qubits wires adj of (scale, data') \<Rightarrow> (Inr scale, data'))))"

subsection \<open>A small dispatcher\<close>

text \<open>
  Concrete data on which the theorems below are exercised: operations and kernels are
  numbers, the memory is a list of integers, and the callables leave a visible mark on
  it (reversing it, clearing it, or putting a tag in front).
\<close>

definition example_matrix_names :: "MatrixOperation \<Rightarrow> string" where
  "example_matrix_names mat_op =
     (case mat_op of SingleQubitOp \<Rightarrow> ''SingleQubitOp'' | TwoQubitOp \<Rightarrow> ''TwoQubitOp''
      | MultiQubitOp \<Rightarrow> ''MultiQubitOp'')"

definition example_gate_names :: "(nat \<times> string) list" where
  "example_gate_names = [(0, ''PauliX''), (1, ''RX'')]"

definition example_generator_names :: "(nat \<times> string) list" where
  "example_generator_names = [(0, ''GeneratorRX''), (1, ''GeneratorRY'')]"

definition flip_gate :: "(int list, int) GateFunc" where
  "flip_gate data num_qubits wires inverse' params = rev data"

definition clear_gate :: "(int list, int) GateFunc" where
  "clear_gate data num_qubits wires inverse' params = map (\<lambda>x. 0) data"

definition flip_generator :: "(int list, int) GeneratorFunc" where
  "flip_generator data num_qubits wires adj = (- 1, rev data)"

definition clear_generator :: "(int list, int) GeneratorFunc" where
  "clear_generator data num_qubits wires adj = (2, map (\<lambda>x. 0) data)"

definition mark_matrix :: "int \<Rightarrow> (int list, int) MatrixFunc" where
  "mark_matrix tag data num_qubits matrix wires inverse' = tag # data"

definition empty_dispatcher :: "(nat, nat, nat, int list, int, int) DynamicDispatcher" where
  "empty_dispatcher =
     \<lparr> str_to_gates = [(''PauliX'', 0), (''RX'', 1)],
       str_to_gntrs = [(''RX'', 0), (''RY'', 1)],
       gate_kernels = [],
       generator_kernels = [],
       matrix_kernels = [],
       kernel_names = [] \<rparr>"

definition example_dispatcher :: "(nat, nat, nat, int list, int, int) DynamicDispatcher" where
  "example_dispatcher =
     \<lparr> str_to_gates = [(''PauliX'', 0), (''RX'', 1)],
       str_to_gntrs = [(''RX'', 0), (''RY'', 1)],
       gate_kernels = [((0, 0), flip_gate)],
       generator_kernels = [((0, 0), flip_generator)],
       matrix_kernels = [((SingleQubitOp, 0), mark_matrix 1), ((TwoQubitOp, 0), mark_matrix 2),
                         ((MultiQubitOp, 0), mark_matrix 3)],
       kernel_names = [(0, ''Reference'')] \<rparr>"

section \<open>Properties\<close>

subsection \<open>Hash maps\<close>

lemma umap_emplace_occupied:
  "umap_find m k = Some v \<Longrightarrow> umap_emplace m k w = m"
  by (simp add: umap_emplace_def)

lemma umap_find_emplace:
  "umap_find (umap_emplace m k v) k' =
     (case umap_find m k' of Some w \<Rightarrow> Some w | None \<Rightarrow> if k' = k then Some v else None)"
  by (auto simp: umap_emplace_def umap_find_def map_add_def split: option.splits)

lemma umap_find_emplace_kept:
  "umap_find m k = Some v \<Longrightarrow> umap_find (umap_emplace m k' w) k = Some v"
  by (simp add: umap_find_emplace)

lemma umap_find_emplace_absent:
  "umap_find m k = None \<Longrightarrow> umap_find (umap_emplace m k v) k = Some v"
  by (simp add: umap_find_emplace)

lemma umap_find_None_iff: "umap_find m k = None \<longleftrightarrow> k \<notin> fst ` set m"
  by (simp add: umap_find_def map_of_eq_None_iff)

lemma umap_keys_emplace:
  "fst ` set (umap_emplace m k v) = insert k (fst ` set m)"
  by (auto simp: umap_emplace_def umap_find_def map_of_eq_None_iff split: option.splits
      dest: map_of_SomeD intro: rev_image_eqI)

lemma umap_emplace_distinct:
  "distinct (map fst m) \<Longrightarrow> distinct (map fst (umap_emplace m k v))"
  by (auto simp: umap_emplace_def umap_find_def map_of_eq_None_iff split: option.splits)

subsection \<open>Registration keeps the entries\<close>

lemmas register_defs =
  registerGateOperation_def registerGeneratorOperation_def registerMatrixOperation_def
  registerKernelName_def

lemma register_gate_kept:
  "umap_find (gate_kernels d) key = Some f \<Longrightarrow> umap_find (gate_kernels (register d r)) key = Some f"
  by (cases r) (simp_all add: register_defs umap_find_emplace_kept)

lemma registerAll_gate_kept:
  "umap_find (gate_kernels d) key = Some f \<Longrightarrow>
   umap_find (gate_kernels (registerAll regs d)) key = Some f"
  unfolding registerAll_def
  by (induction regs arbitrary: d) (simp_all add: register_gate_kept)

lemma register_generator_kept:
  "umap_find (generator_kernels d) key = Some f \<Longrightarrow>
   umap_find (generator_kernels (register d r)) key = Some f"
  by (cases r) (simp_all add: register_defs umap_find_emplace_kept)

lemma registerAll_generator_kept:
  "umap_find (generator_kernels d) key = Some f \<Longrightarrow>
   umap_find (generator_kernels (registerAll regs d)) key = Some f"
  unfolding registerAll_def
  by (induction regs arbitrary: d) (simp_all add: register_generator_kept)

lemma register_matrix_kept:
  "umap_find (matrix_kernels d) key = Some f \<Longrightarrow>
   umap_find (matrix_kernels (register d r)) key = Some f"
  by (cases r) (simp_all add: register_defs umap_find_emplace_kept)

lemma registerAll_matrix_kept:
  "umap_find (matrix_kernels d) key = Some f \<Longrightarrow>
   umap_find (matrix_kernels (registerAll regs d)) key = Some f"
  unfolding registerAll_def
  by (induction regs arbitrary: d) (simp_all add: register_matrix_kept)

lemma register_kernel_name_kept:
  "umap_find (kernel_names d) key = Some name \<Longrightarrow>
   umap_find (kernel_names (register d r)) key = Some name"
  by (cases r) (simp_all add: register_defs umap_find_emplace_kept)

lemma registerAll_kernel_name_kept:
  "umap_find (kernel_names d) key = Some name \<Longrightarrow>
   umap_find (kernel_names (registerAll regs d)) key = Some name"
  unfolding registerAll_def
  by (induction regs arbitrary: d) (simp_all add: register_kernel_name_kept)

lemma register_name_tables:
  "str_to_gates (register d r) = str_to_gates d \<and> str_to_gntrs (register d r) = str_to_gntrs d"
  by (cases r) (simp_all add: register_defs)

lemma registerAll_name_tables:
  "str_to_gates (registerAll regs d) = str_to_gates d \<and>
   str_to_gntrs (registerAll regs d) = str_to_gntrs d"
  unfolding registerAll_def
  by (induction regs arbitrary: d) (simp_all add: register_name_tables)

lemma registerGateOperation_occupied:
  "umap_find (gate_kernels d) (gate_op, kern) = Some f \<Longrightarrow>
   registerGateOperation gate_op kern f' d = d"
  by (simp add: registerGateOperation_def umap_emplace_occupied)

lemma registerGeneratorOperation_occupied:
  "umap_find (generator_kernels d) (gntr_op, kern) = Some f \<Longrightarrow>
   registerGeneratorOperation gntr_op kern f' d = d"
  by (simp add: registerGeneratorOperation_def umap_emplace_occupied)

lemma registerMatrixOperation_occupied:
  "umap_find (matrix_kernels d) (mat_op, kern) = Some f \<Longrightarrow>
   registerMatrixOperation mat_op kern f' d = d"
  by (simp add: registerMatrixOperation_def umap_emplace_occupied)

lemma applyOperation_op_registered:
  "umap_find (gate_kernels d) (gate_op, kern) = Some f \<Longrightarrow>
   applyOperation_op d kern data num_qubits gate_op wires inverse' params =
     (Inr (), f data num_qubits wires inverse' params)"
  by (simp add: applyOperation_op_def)

lemma applyOperation_str_registered:
  "strToGateOp d op_name = Inr gate_op \<Longrightarrow>
   umap_find (gate_kernels d) (gate_op, kern) = Some f \<Longrightarrow>
   applyOperation_str d kern data num_qubits op_name wires inverse' params =
     (Inr (), f data num_qubits wires inverse' params)"
  by (simp add: applyOperation_str_def)

lemma applyGenerator_op_registered:
  "umap_find (generator_kernels d) (gntr_op, kern) = Some f \<Longrightarrow>
   applyGenerator_op d kern data num_qubits gntr_op wires adj =
     (Inr (fst (f data num_qubits wires adj)), snd (f data num_qubits wires adj))"
  by (simp add: applyGenerator_op_def split: prod.splits)

lemma applyMatrix_ptr_registered:
  "length wires \<le> num_qubits \<Longrightarrow>
   umap_find (matrix_kernels d)
     (if length wires = 1 then SingleQubitOp else if length wires = 2 then TwoQubitOp
      else MultiQubitOp, kern) = Some f \<Longrightarrow>
   applyMatrix_ptr matrix_names d kern data num_qubits matrix wires inverse' =
     (Inr (), f data num_qubits matrix wires inverse')"
  by (simp add: applyMatrix_ptr_def Let_def)

subsection \<open>Concrete evaluation\<close>

lemmas example_eval =
  example_dispatcher_def example_matrix_names_def umap_find_def umap_at_def
  strToGateOp_def strToGeneratorOp_def applyOperation_str_def applyOperation_op_def
  applyMatrix_ptr_def applyMatrix_vec_def applyGenerator_op_def applyGenerator_str_def exp2_def
  flip_gate_def flip_generator_def mark_matrix_def

lemma example_init:
  "DynamicDispatcher_init example_gate_names example_generator_names = Inr empty_dispatcher"
  by (simp add: DynamicDispatcher_init_def example_gate_names_def example_generator_names_def
      empty_dispatcher_def emplace_names_def umap_emplace_def umap_find_def substr_def prefix_def)

subsection \<open>Keys of the gate name table\<close>

lemma emplace_names_keys_aux:
  "fst ` set (foldl (\<lambda>m (op, name). umap_emplace m name op) m0 names) =
     fst ` set m0 \<union> snd ` set names"
  by (induction names arbitrary: m0) (simp_all add: umap_keys_emplace split_beta)

lemma emplace_names_keys: "fst ` set (emplace_names names) = snd ` set names"
  by (simp add: emplace_names_def emplace_names_keys_aux)

lemma init_str_to_gates:
  "DynamicDispatcher_init gate_names generator_names = Inr d \<Longrightarrow>
   str_to_gates d = emplace_names gate_names"
  by (auto simp: DynamicDispatcher_init_def split: sum.splits)

lemma hasGateOp_iff: "hasGateOp d gate_name \<longleftrightarrow> gate_name \<in> fst ` set (str_to_gates d)"
  using umap_find_None_iff [of "str_to_gates d" gate_name]
  by (auto simp: hasGateOp_def umap_contains_def split: option.splits)

lemma strToGateOp_unknown: "\<not> hasGateOp d gate_name \<Longrightarrow> strToGateOp d gate_name = Inl out_of_range"
  by (simp add: hasGateOp_iff strToGateOp_def umap_at_def umap_find_None_iff [symmetric])

subsection \<open>Failures of a gate dispatch\<close>

text \<open>
  C2, as the code has it. When no callable is registered for the gate operation and
  the kernel, \<^verbatim>\<open>applyOperation\<close> (by operation, and by a name that resolves to
  it) throws \<^verbatim>\<open>std::invalid_argument\<close> and leaves the memory as it was. The message
  is one fixed text: it names neither the operation nor the kernel that was asked for.
\<close>

theorem applyOperation_kernel_not_registered:
  "(\<not> isRegistered_gate d gate_op kern \<longrightarrow>
      applyOperation_op d kern data num_qubits gate_op wires inverse' params =
        (Inl (invalid_argument
           ''Cannot find a registered kernel for a given gate and kernel pair''), data)) \<and>
   (strToGateOp d op_name = Inr gate_op \<and> \<not> isRegistered_gate d gate_op kern \<longrightarrow>
      applyOperation_str d kern data num_qubits op_name wires inverse' params =
        (Inl (invalid_argument
           ''Cannot find a registered kernel for a given gate and kernel pair''), data))"
  by (simp add: isRegistered_gate_def applyOperation_op_def applyOperation_str_def)

theorem applyOperation_kernel_not_registered_witness:
  "\<not> isRegistered_gate example_dispatcher 0 1 \<and>
   applyOperation_op example_dispatcher 1 [1, 0] 1 0 [0] False [] =
     (Inl (invalid_argument
        ''Cannot find a registered kernel for a given gate and kernel pair''), [1, 0]) \<and>
   strToGateOp example_dispatcher ''PauliX'' = Inr 0 \<and>
   applyOperation_str example_dispatcher 1 [1, 0] 1 ''PauliX'' [0] False [] =
     (Inl (invalid_argument
        ''Cannot find a registered kernel for a given gate and kernel pair''), [1, 0])"
proof -
  have r: "\<not> isRegistered_gate example_dispatcher 0 1"
    by (simp add: isRegistered_gate_def umap_find_def example_dispatcher_def)
  have s: "strToGateOp example_dispatcher ''PauliX'' = Inr 0"
    by (simp add: strToGateOp_def umap_at_def umap_find_def example_dispatcher_def)
  show ?thesis
    using r s
      applyOperation_kernel_not_registered [of example_dispatcher 0 1 "[1, 0]" 1 "[0]" False "[]"
        "''PauliX''"]
    by simp
qed

text \<open>
  Two requests that differ in both the operation and the kernel, neither registered,
  get the very same report: the report cannot tell which pair was requested.
\<close>

theorem kernel_not_registered_report_counterexample:
  "applyOperation_op example_dispatcher 1 [1, 0] 1 0 [0] False [] =
     (Inl (invalid_argument
        ''Cannot find a registered kernel for a given gate and kernel pair''), [1, 0]) \<and>
   applyOperation_op example_dispatcher 0 [1, 0] 1 1 [0] False [] =
     (Inl (invalid_argument
        ''Cannot find a registered kernel for a given gate and kernel pair''), [1, 0]) \<and>
   fst (applyOperation_op example_dispatcher 1 [1, 0] 1 0 [0] False []) =
     fst (applyOperation_op example_dispatcher 0 [1, 0] 1 1 [0] False [])"
  by (simp add: applyOperation_op_def umap_find_def example_dispatcher_def)

text \<open>
  C8. A gate name that is not in the name table makes \<^verbatim>\<open>applyOperation\<close> fail
  with the \<^verbatim>\<open>std::out_of_range\<close> of \<^verbatim>\<open>strToGateOp\<close>, whatever is registered
  and for every kernel, and the memory is returned untouched. For a dispatcher built by
  the constructor, these are the names outside the gate catalogue, however many
  registrations follow.
\<close>

theorem applyOperation_unknown_operation:
  "(\<not> hasGateOp d op_name \<longrightarrow>
      applyOperation_str d kern data num_qubits op_name wires inverse' params =
        (Inl out_of_range, data)) \<and>
   (DynamicDispatcher_init gate_names generator_names = Inr d0 \<and>
    op_name \<notin> snd ` set gate_names \<longrightarrow>
      applyOperation_str (registerAll regs d0) kern data num_qubits op_name wires inverse' params =
        (Inl out_of_range, data))"
proof (intro conjI impI)
  assume "\<not> hasGateOp d op_name"
  then show "applyOperation_str d kern data num_qubits op_name wires inverse' params =
        (Inl out_of_range, data)"
    by (simp add: applyOperation_str_def strToGateOp_unknown)
next
  assume a: "DynamicDispatcher_init gate_names generator_names = Inr d0 \<and>
    op_name \<notin> snd ` set gate_names"
  then have "str_to_gates (registerAll regs d0) = emplace_names gate_names"
    by (simp add: registerAll_name_tables init_str_to_gates [of gate_names generator_names])
  with a have "\<not> hasGateOp (registerAll regs d0) op_name"
    by (simp add: hasGateOp_iff emplace_names_keys)
  then show "applyOperation_str (registerAll regs d0) kern data num_qubits op_name wires inverse'
      params = (Inl out_of_range, data)"
    by (simp add: applyOperation_str_def strToGateOp_unknown)
qed

theorem applyOperation_unknown_operation_witness:
  "\<not> hasGateOp example_dispatcher ''NotAGate'' \<and>
   applyOperation_str example_dispatcher 0 [1, 0] 1 ''NotAGate'' [0] False [] =
     (Inl out_of_range, [1, 0]) \<and>
   DynamicDispatcher_init example_gate_names example_generator_names = Inr empty_dispatcher \<and>
   ''NotAGate'' \<notin> snd ` set example_gate_names \<and>
   applyOperation_str (registerAll [RegisterGate 0 0 flip_gate] empty_dispatcher) 0 [1, 0] 1
     ''NotAGate'' [0] False [] = (Inl out_of_range, [1, 0])"
proof -
  have h: "\<not> hasGateOp example_dispatcher ''NotAGate''"
    by (simp add: hasGateOp_def umap_contains_def umap_find_def example_dispatcher_def)
  have n: "''NotAGate'' \<notin> snd ` set example_gate_names"
    by (simp add: example_gate_names_def)
  show ?thesis
    using h n example_init
      applyOperation_unknown_operation [of example_dispatcher "''NotAGate''" 0 "[1, 0]" 1 "[0]"
        False "[]" example_gate_names example_generator_names empty_dispatcher
        "[RegisterGate 0 0 flip_gate]"]
    by simp
qed

subsection \<open>Batches\<close>

text \<open>
  C3. When the numbers of operations, wire lists and parameter lists are not all
  equal (for the overload without parameters: operations and wire lists),
  \<^verbatim>\<open>applyOperations\<close> throws \<^verbatim>\<open>std::invalid_argument\<close> with the message about the
  argument counts and returns the memory as it was. This holds for every dispatcher,
  so for every choice of registered callables: none of them has run.
\<close>

theorem applyOperations_argument_count_mismatch:
  "(length ops \<noteq> length wires \<or> length ops \<noteq> length params \<longrightarrow>
      applyOperations d kern data num_qubits ops wires inverse' params =
        (Inl (invalid_argument
           ''Invalid arguments: number of operations, wires, and parameters must all be equal''),
         data)) \<and>
   (length ops \<noteq> length wires \<longrightarrow>
      applyOperations_noparams d kern data num_qubits ops wires inverse' =
        (Inl (invalid_argument
           ''Invalid arguments: number of operations, wires, and parameters must all be equal''),
         data))"
  by (simp add: applyOperations_def applyOperations_noparams_def Let_def)

theorem applyOperations_argument_count_mismatch_witness:
  "length [''PauliX'', ''PauliX'', ''PauliX''] \<noteq> length [[0::nat], [0]] \<and>
   applyOperations example_dispatcher 0 [1, 0] 1 [''PauliX'', ''PauliX'', ''PauliX''] [[0], [0]]
       [False, False, False] [[], [], []] =
     (Inl (invalid_argument
        ''Invalid arguments: number of operations, wires, and parameters must all be equal''),
      [1, 0]) \<and>
   applyOperations_noparams example_dispatcher 0 [1, 0] 1 [''PauliX'', ''PauliX'', ''PauliX'']
       [[0], [0]] [False, False, False] =
     (Inl (invalid_argument
        ''Invalid arguments: number of operations, wires, and parameters must all be equal''),
      [1, 0])"
  using applyOperations_argument_count_mismatch [of "[''PauliX'', ''PauliX'', ''PauliX'']"
      "[[0], [0]]" "[[], [], []]" example_dispatcher 0 "[1, 0]" 1 "[False, False, False]"]
  by simp







lemma batch_spec_append:
  "batch_spec d kern num_qubits (xs @ ys) data =
     (case batch_spec d kern num_qubits xs data of
        (Inl e, data') \<Rightarrow> (Inl e, data')
      | (Inr u, data') \<Rightarrow> batch_spec d kern num_qubits ys data')"
  by (induction xs arbitrary: data) (auto split: prod.splits sum.splits)

lemma applyOperations_loop_spec:
  "length ops = numOperations \<Longrightarrow> length wires = numOperations \<Longrightarrow>
   length params = numOperations \<Longrightarrow> numOperations \<le> length inverse' \<Longrightarrow>
   applyOperations_loop d kern num_qubits ops wires inverse' params numOperations i data =
     batch_spec d kern num_qubits (drop i (zip ops (zip wires (zip inverse' params)))) data"
proof (induction d kern num_qubits ops wires inverse' params numOperations i data
    rule: applyOperations_loop.induct)
  case (1 d kern num_qubits ops wires inverse' params numOperations i data)
  let ?elems = "zip ops (zip wires (zip inverse' params))"
  show ?case
  proof (cases "i < numOperations")
    case False
    with "1.prems" show ?thesis
      by (simp add: applyOperations_loop.simps [of _ _ _ _ _ _ _ _ i])
  next
    case True
    with "1.prems" have len: "i < length ?elems" and inv: "i < length inverse'"
      by simp_all
    from len have step: "drop i ?elems =
        (ops ! i, wires ! i, inverse' ! i, params ! i) # drop (Suc i) ?elems"
      by (simp add: Cons_nth_drop_Suc [symmetric])
    show ?thesis
    proof (cases "applyOperation_str d kern data num_qubits (ops ! i) (wires ! i) (inverse' ! i)
        (params ! i)")
      case (Pair r data')
      show ?thesis
      proof (cases r)
        case (Inl e)
        with Pair True inv step show ?thesis
          by (simp add: applyOperations_loop.simps [of _ _ _ _ _ _ _ _ i])
      next
        case (Inr u)
        with Pair True inv "1.IH" "1.prems"
        have "applyOperations_loop d kern num_qubits ops wires inverse' params numOperations
            (i + 1) data' = batch_spec d kern num_qubits (drop (i + 1) ?elems) data'"
          by simp
        with Pair Inr True inv step show ?thesis
          by (simp add: applyOperations_loop.simps [of _ _ _ _ _ _ _ _ i])
      qed
    qed
  qed
qed


lemma applyOperations_spec:
  assumes "length ops = length wires" "length ops = length params"
    "length ops \<le> length inverse'"
  shows "applyOperations d kern data num_qubits ops wires inverse' params =
     batch_spec d kern num_qubits (zip ops (zip wires (zip inverse' params))) data"
proof -
  have "applyOperations_loop d kern num_qubits ops wires inverse' params (length ops) 0 data =
      batch_spec d kern num_qubits (drop 0 (zip ops (zip wires (zip inverse' params)))) data"
    by (rule applyOperations_loop_spec) (simp_all add: assms(1,2) [symmetric] assms(3))
  with assms(1,2) show ?thesis
    by (simp add: applyOperations_def Let_def)
qed


lemma applyOperations_split:
  assumes len: "length ops = length wires" "length ops = length params"
    "length ops \<le> length inverse'"
  shows "applyOperations d kern data num_qubits ops wires inverse' params =
     (case applyOperations d kern data num_qubits (take j ops) (take j wires) (take j inverse')
             (take j params) of
        (Inl e, data') \<Rightarrow> (Inl e, data')
      | (Inr u, data') \<Rightarrow>
          applyOperations d kern data' num_qubits (drop j ops) (drop j wires) (drop j inverse')
            (drop j params))"
proof -
  let ?elems = "zip ops (zip wires (zip inverse' params))"
  have whole: "applyOperations d kern data num_qubits ops wires inverse' params =
      batch_spec d kern num_qubits (take j ?elems @ drop j ?elems) data"
    using len by (simp add: applyOperations_spec)
  have front: "applyOperations d kern data num_qubits (take j ops) (take j wires) (take j inverse')
      (take j params) = batch_spec d kern num_qubits (take j ?elems) data"
    using len by (simp add: applyOperations_spec take_zip)
  have rear: "applyOperations d kern data' num_qubits (drop j ops) (drop j wires) (drop j inverse')
      (drop j params) = batch_spec d kern num_qubits (drop j ?elems) data'" for data'
    using len by (simp add: applyOperations_spec drop_zip)
  show ?thesis
    unfolding whole front rear by (rule batch_spec_append)
qed




subsection \<open>Matrices\<close>

lemma exp2_twice: "exp2 (2 * n) = 4 ^ n"
  by (simp add: exp2_def power_mult)

lemma not_registered_message_differs:
  "name @ '' is not registered for the given kernel'' \<noteq>
     ''The size of matrix does not match with the given number of wires''"
proof
  assume "name @ '' is not registered for the given kernel'' =
     ''The size of matrix does not match with the given number of wires''"
  then have "last (name @ '' is not registered for the given kernel'') =
     last ''The size of matrix does not match with the given number of wires''"
    by (rule arg_cong)
  then show False
    by simp
qed

lemma applyMatrix_ptr_no_size_error:
  "fst (applyMatrix_ptr matrix_names d kern data num_qubits matrix wires inverse') \<noteq>
     Inl (invalid_argument ''The size of matrix does not match with the given number of wires'')"
  using not_registered_message_differs
  by (auto simp: applyMatrix_ptr_def Let_def split: option.splits)

text \<open>
  C5. Past the assertion, \<^verbatim>\<open>applyMatrix\<close> looks up the single-qubit operation for
  one wire, the two-qubit operation for two wires and the multi-qubit operation for
  every other number of wires (none included), runs the callable registered there for
  the kernel and otherwise reports that operation's name. The vector overload, once
  the size is accepted, is the pointer overload. Whether the call succeeds, and with
  which report, is the same for any two matrices.
\<close>

theorem applyMatrix_classified_by_wire_count:
  "(length wires \<le> num_qubits \<and> length wires = 1 \<longrightarrow>
      applyMatrix_ptr matrix_names d kern data num_qubits matrix wires inverse' =
        (case umap_find (matrix_kernels d) (SingleQubitOp, kern) of
           None \<Rightarrow> (Inl (invalid_argument
             (matrix_names SingleQubitOp @ '' is not registered for the given kernel'')), data)
         | Some func \<Rightarrow> (Inr (), func data num_qubits matrix wires inverse'))) \<and>
   (length wires \<le> num_qubits \<and> length wires = 2 \<longrightarrow>
      applyMatrix_ptr matrix_names d kern data num_qubits matrix wires inverse' =
        (case umap_find (matrix_kernels d) (TwoQubitOp, kern) of
           None \<Rightarrow> (Inl (invalid_argument
             (matrix_names TwoQubitOp @ '' is not registered for the given kernel'')), data)
         | Some func \<Rightarrow> (Inr (), func data num_qubits matrix wires inverse'))) \<and>
   (length wires \<le> num_qubits \<and> length wires \<noteq> 1 \<and> length wires \<noteq> 2 \<longrightarrow>
      applyMatrix_ptr matrix_names d kern data num_qubits matrix wires inverse' =
        (case umap_find (matrix_kernels d) (MultiQubitOp, kern) of
           None \<Rightarrow> (Inl (invalid_argument
             (matrix_names MultiQubitOp @ '' is not registered for the given kernel'')), data)
         | Some func \<Rightarrow> (Inr (), func data num_qubits matrix wires inverse'))) \<and>
   (length matrix = 4 ^ length wires \<longrightarrow>
      applyMatrix_vec matrix_names d kern data num_qubits matrix wires inverse' =
        applyMatrix_ptr matrix_names d kern data num_qubits matrix wires inverse') \<and>
   fst (applyMatrix_ptr matrix_names d kern data num_qubits matrix wires inverse') =
     fst (applyMatrix_ptr matrix_names d kern data num_qubits matrix' wires inverse')"
  by (simp add: applyMatrix_ptr_def applyMatrix_vec_def exp2_twice Let_def split: option.splits)

theorem applyMatrix_classified_by_wire_count_witness:
  "applyMatrix_ptr example_matrix_names example_dispatcher 0 [] 3 [1, 0, 0, 1] [0] False =
     (Inr (), [1]) \<and>
   applyMatrix_ptr example_matrix_names example_dispatcher 0 [] 3 [0, 1, 1, 0] [0] False =
     (Inr (), [1]) \<and>
   applyMatrix_ptr example_matrix_names example_dispatcher 0 [] 3 [1, 0, 0, 1] [0, 1] False =
     (Inr (), [2]) \<and>
   applyMatrix_ptr example_matrix_names example_dispatcher 0 [] 3 [1, 0, 0, 1] [0, 1, 2] False =
     (Inr (), [3]) \<and>
   applyMatrix_ptr example_matrix_names example_dispatcher 0 [] 3 [1, 0, 0, 1] [] False =
     (Inr (), [3]) \<and>
   applyMatrix_vec example_matrix_names example_dispatcher 0 [] 3 [1, 0, 0, 1] [0] False =
     (Inr (), [1])"
  using applyMatrix_classified_by_wire_count [of "[0]" 3 example_matrix_names example_dispatcher 0
      "[]" "[1, 0, 0, 1]" False "[]"]
    applyMatrix_classified_by_wire_count [of "[0]" 3 example_matrix_names example_dispatcher 0
      "[]" "[0, 1, 1, 0]" False "[]"]
    applyMatrix_classified_by_wire_count [of "[0, 1]" 3 example_matrix_names example_dispatcher 0
      "[]" "[1, 0, 0, 1]" False "[]"]
    applyMatrix_classified_by_wire_count [of "[0, 1, 2]" 3 example_matrix_names example_dispatcher
      0 "[]" "[1, 0, 0, 1]" False "[]"]
    applyMatrix_classified_by_wire_count [of "[]" 3 example_matrix_names example_dispatcher 0
      "[]" "[1, 0, 0, 1]" False "[]"]
  by (simp add: example_dispatcher_def umap_find_def mark_matrix_def)

text \<open>
  C6. The vector overload of \<^verbatim>\<open>applyMatrix\<close> throws \<^verbatim>\<open>std::invalid_argument\<close> with
  the message about the size of the matrix whenever the number of elements is not
  \<open>4 ^ n\<close> for \<open>n\<close> wires, for every dispatcher and with the memory untouched; when the
  number is \<open>4 ^ n\<close> it continues as the pointer overload, which never gives that
  error.
\<close>

theorem applyMatrix_size_validation:
  "(length matrix \<noteq> 4 ^ length wires \<longrightarrow>
      applyMatrix_vec matrix_names d kern data num_qubits matrix wires inverse' =
        (Inl (invalid_argument
           ''The size of matrix does not match with the given number of wires''), data)) \<and>
   (length matrix = 4 ^ length wires \<longrightarrow>
      applyMatrix_vec matrix_names d kern data num_qubits matrix wires inverse' =
        applyMatrix_ptr matrix_names d kern data num_qubits matrix wires inverse' \<and>
      fst (applyMatrix_vec matrix_names d kern data num_qubits matrix wires inverse') \<noteq>
        Inl (invalid_argument
           ''The size of matrix does not match with the given number of wires''))"
  using applyMatrix_ptr_no_size_error [of matrix_names d kern data num_qubits matrix wires inverse']
  by (simp add: applyMatrix_vec_def exp2_twice)

theorem applyMatrix_size_validation_witness:
  "length [0, 1, 1 :: int] \<noteq> 4 ^ length [0 :: nat] \<and>
   applyMatrix_vec example_matrix_names example_dispatcher 0 [1, 0] 1 [0, 1, 1] [0] False =
     (Inl (invalid_argument
        ''The size of matrix does not match with the given number of wires''), [1, 0]) \<and>
   length [0, 1, 1, 0 :: int] = 4 ^ length [0 :: nat] \<and>
   applyMatrix_vec example_matrix_names example_dispatcher 0 [1, 0] 1 [0, 1, 1, 0] [0] False =
     (Inr (), [1, 1, 0])"
  using applyMatrix_size_validation [of "[0, 1, 1]" "[0]" example_matrix_names example_dispatcher 0
      "[1, 0]" 1 False]
    applyMatrix_size_validation [of "[0, 1, 1, 0]" "[0]" example_matrix_names example_dispatcher 0
      "[1, 0]" 1 False]
  by (simp add: example_eval)

text \<open>
  C9, as the code has it. The pointer overload of \<^verbatim>\<open>applyMatrix\<close> asserts the wire
  count first: with more wires than qubits it ends in the assertion failure and in no
  exception. The vector overload checks the size of the matrix before that: with more
  wires than qubits it ends in the assertion failure when the size is right, and in
  the size error, an ordinary exception, when the size is wrong. With at most as many
  wires as qubits neither overload ends in the assertion failure.
\<close>

theorem applyMatrix_wire_count_assertion:
  "(num_qubits < length wires \<longrightarrow>
      applyMatrix_ptr matrix_names d kern data num_qubits matrix wires inverse' =
        (Inl assertion_failure, data)) \<and>
   (num_qubits < length wires \<and> length matrix = 4 ^ length wires \<longrightarrow>
      applyMatrix_vec matrix_names d kern data num_qubits matrix wires inverse' =
        (Inl assertion_failure, data)) \<and>
   (length matrix \<noteq> 4 ^ length wires \<longrightarrow>
      applyMatrix_vec matrix_names d kern data num_qubits matrix wires inverse' =
        (Inl (invalid_argument
           ''The size of matrix does not match with the given number of wires''), data)) \<and>
   (length wires \<le> num_qubits \<longrightarrow>
      fst (applyMatrix_ptr matrix_names d kern data num_qubits matrix wires inverse') \<noteq>
        Inl assertion_failure \<and>
      fst (applyMatrix_vec matrix_names d kern data num_qubits matrix wires inverse') \<noteq>
        Inl assertion_failure)"
  by (auto simp: applyMatrix_ptr_def applyMatrix_vec_def exp2_twice Let_def split: option.splits)

theorem applyMatrix_wire_count_assertion_witness:
  "applyMatrix_ptr example_matrix_names example_dispatcher 0 [1, 0] 0 [1, 0, 0, 1] [0] False =
     (Inl assertion_failure, [1, 0]) \<and>
   applyMatrix_vec example_matrix_names example_dispatcher 0 [1, 0] 0 [1, 0, 0, 1] [0] False =
     (Inl assertion_failure, [1, 0]) \<and>
   applyMatrix_vec example_matrix_names example_dispatcher 0 [1, 0] 0 [0, 1, 1] [0] False =
     (Inl (invalid_argument
        ''The size of matrix does not match with the given number of wires''), [1, 0]) \<and>
   applyMatrix_ptr example_matrix_names example_dispatcher 0 [1, 0] 1 [1, 0, 0, 1] [0] False =
     (Inr (), [1, 1, 0]) \<and>
   applyMatrix_vec example_matrix_names example_dispatcher 0 [1, 0] 1 [1, 0, 0, 1] [0] False =
     (Inr (), [1, 1, 0])"
  using applyMatrix_wire_count_assertion [of 0 "[0]" example_matrix_names example_dispatcher 0
      "[1, 0]" "[1, 0, 0, 1]" False]
    applyMatrix_wire_count_assertion [of 0 "[0]" example_matrix_names example_dispatcher 0
      "[1, 0]" "[0, 1, 1]" False]
    applyMatrix_wire_count_assertion [of 1 "[0]" example_matrix_names example_dispatcher 0
      "[1, 0]" "[1, 0, 0, 1]" False]
  by (simp add: example_eval)

text \<open>
  One wire on zero qubits breaks the precondition, yet the vector overload, given
  three matrix elements, throws the size error and never reaches the assertion.
\<close>

theorem applyMatrix_assertion_first_counterexample:
  "0 < length [0 :: nat] \<and>
   applyMatrix_vec example_matrix_names example_dispatcher 0 [1, 0] 0 [0, 1, 1] [0] False =
     (Inl (invalid_argument
        ''The size of matrix does not match with the given number of wires''), [1, 0])"
  by (simp add: example_eval)

subsection \<open>Names of the catalogue\<close>

lemma emplace_names_find_aux:
  "umap_find (foldl (\<lambda>m (op, name). umap_emplace m name op) m0 names) k =
     (case umap_find m0 k of
        Some v \<Rightarrow> Some v
      | None \<Rightarrow> map_of (map (\<lambda>(op, name). (name, op)) names) k)"
proof (induction names arbitrary: m0)
  case Nil
  show ?case by (simp split: option.splits)
next
  case (Cons entry names)
  obtain op name where entry: "entry = (op, name)"
    by (cases entry)
  show ?case
    by (simp add: entry Cons.IH umap_find_emplace split: option.splits)
qed

lemma emplace_names_find:
  "umap_find (emplace_names names) k = map_of (map (\<lambda>(op, name). (name, op)) names) k"
proof -
  have "umap_find [] k = (None :: 'a option)"
    by (simp add: umap_find_def)
  then show ?thesis
    by (simp add: emplace_names_def emplace_names_find_aux)
qed

lemma emplace_names_entry:
  assumes "distinct (map snd names)" and "(op, name) \<in> set names"
  shows "umap_find (emplace_names names) name = Some op"
proof -
  have keys: "map fst (map (\<lambda>(op, name). (name, op)) names) = map snd names"
    by (simp add: split_beta)
  have "distinct (map fst (map (\<lambda>(op, name). (name, op)) names))"
    unfolding keys by (rule assms(1))
  moreover from assms(2) have "(name, op) \<in> set (map (\<lambda>(op, name). (name, op)) names)"
    by force
  ultimately show ?thesis
    by (simp add: emplace_names_find)
qed

lemma generatorNamesWithoutPrefix_result:
  "generatorNamesWithoutPrefix names = Inr res \<Longrightarrow>
   res = map (\<lambda>(gntr_op, gntr_name). (gntr_op, drop (length prefix) gntr_name)) names"
  by (induction names arbitrary: res)
    (auto simp: substr_def split: sum.splits if_splits)

lemma init_str_to_gntrs:
  "DynamicDispatcher_init gate_names generator_names = Inr d \<Longrightarrow>
   str_to_gntrs d =
     emplace_names
       (map (\<lambda>(gntr_op, gntr_name). (gntr_op, drop (length prefix) gntr_name)) generator_names)"
  by (auto simp: DynamicDispatcher_init_def split: sum.splits
      dest: generatorNamesWithoutPrefix_result)

lemma prefixed_names_distinct_stripped:
  assumes dist: "distinct (map snd names)"
    and pre: "\<forall>(gntr_op, gntr_name) \<in> set names. take (length prefix) gntr_name = prefix"
  shows "distinct (map (\<lambda>(gntr_op, gntr_name). drop (length prefix) gntr_name) names)"
proof -
  have "inj_on (drop (length prefix)) (set (map snd names))"
  proof (rule inj_onI)
    fix a b
    assume a: "a \<in> set (map snd names)" and b: "b \<in> set (map snd names)"
      and eq: "drop (length prefix) a = drop (length prefix) b"
    from a pre have "take (length prefix) a = prefix"
      by auto
    moreover from b pre have "take (length prefix) b = prefix"
      by auto
    ultimately have "take (length prefix) a @ drop (length prefix) a =
        take (length prefix) b @ drop (length prefix) b"
      using eq by simp
    then show "a = b"
      by (simp only: append_take_drop_id)
  qed
  with dist have "distinct (map (drop (length prefix)) (map snd names))"
    by (simp add: distinct_map comp_inj_on)
  moreover have "map (drop (length prefix)) (map snd names) =
      map (\<lambda>(gntr_op, gntr_name). drop (length prefix) gntr_name) names"
    by (simp add: split_beta)
  ultimately show ?thesis
    by (simp only:)
qed

lemma prefixed_names_constructed:
  "\<forall>(gntr_op, gntr_name) \<in> set names. take (length prefix) gntr_name = prefix \<Longrightarrow>
   \<exists>res. generatorNamesWithoutPrefix names = Inr res"
proof (induction names)
  case Nil
  show ?case by simp
next
  case (Cons entry names)
  obtain gntr_op gntr_name where entry: "entry = (gntr_op, gntr_name)"
    by (cases entry)
  with Cons.prems have "take (length prefix) gntr_name = prefix"
    by simp
  then have "length (take (length prefix) gntr_name) = length prefix"
    by (simp only:)
  then have "length prefix \<le> length gntr_name"
    by simp
  moreover from Cons obtain res where "generatorNamesWithoutPrefix names = Inr res"
    by auto
  ultimately show ?case
    by (simp add: entry substr_def)
qed

text \<open>
  C7. Let the constructor succeed on the two catalogue tables. If no gate name occurs
  twice, every catalogued gate name resolves to the operation catalogued with it. If
  no two generator names agree after their first nine characters (so in particular if
  the names are distinct and all start with \<open>Generator\<close>), every entry named
  \<open>Generator\<close> followed by \<open>x\<close> is what \<^verbatim>\<open>strToGeneratorOp\<close> returns for \<open>x\<close>.
  Registrations do not change either answer.
\<close>

theorem catalogue_names_resolve:
  "(DynamicDispatcher_init gate_names generator_names = Inr d \<and>
    distinct (map snd gate_names) \<longrightarrow>
      (\<forall>(gate_op, gate_name) \<in> set gate_names.
         strToGateOp (registerAll regs d) gate_name = Inr gate_op)) \<and>
   (DynamicDispatcher_init gate_names generator_names = Inr d \<and>
    distinct (map (\<lambda>(gntr_op, gntr_name). drop (length prefix) gntr_name) generator_names) \<longrightarrow>
      (\<forall>(gntr_op, gntr_name) \<in> set generator_names. \<forall>x.
         gntr_name = ''Generator'' @ x \<longrightarrow>
         strToGeneratorOp (registerAll regs d) x = Inr gntr_op))"
proof (intro conjI impI)
  assume a: "DynamicDispatcher_init gate_names generator_names = Inr d \<and>
    distinct (map snd gate_names)"
  then have tab: "str_to_gates (registerAll regs d) = emplace_names gate_names"
    by (simp add: registerAll_name_tables init_str_to_gates [of gate_names generator_names])
  show "\<forall>(gate_op, gate_name) \<in> set gate_names.
         strToGateOp (registerAll regs d) gate_name = Inr gate_op"
  proof (clarify)
    fix gate_op gate_name
    assume "(gate_op, gate_name) \<in> set gate_names"
    with a have "umap_find (emplace_names gate_names) gate_name = Some gate_op"
      by (simp add: emplace_names_entry)
    then show "strToGateOp (registerAll regs d) gate_name = Inr gate_op"
      by (simp add: strToGateOp_def umap_at_def tab)
  qed
next
  let ?stripped = "map (\<lambda>(gntr_op, gntr_name). (gntr_op, drop (length prefix) gntr_name))
    generator_names"
  assume a: "DynamicDispatcher_init gate_names generator_names = Inr d \<and>
    distinct (map (\<lambda>(gntr_op, gntr_name). drop (length prefix) gntr_name) generator_names)"
  then have tab: "str_to_gntrs (registerAll regs d) = emplace_names ?stripped"
    by (simp add: registerAll_name_tables init_str_to_gntrs [of gate_names generator_names])
  have names: "map snd ?stripped =
      map (\<lambda>(gntr_op, gntr_name). drop (length prefix) gntr_name) generator_names"
    by (simp add: split_beta)
  have dist: "distinct (map snd ?stripped)"
    unfolding names by (rule a [THEN conjunct2])
  show "\<forall>(gntr_op, gntr_name) \<in> set generator_names. \<forall>x.
         gntr_name = ''Generator'' @ x \<longrightarrow>
         strToGeneratorOp (registerAll regs d) x = Inr gntr_op"
  proof (clarify)
    fix gntr_op x
    assume "(gntr_op, ''Generator'' @ x) \<in> set generator_names"
    then have "(gntr_op, drop (length prefix) (''Generator'' @ x)) \<in> set ?stripped"
      by force
    then have "(gntr_op, x) \<in> set ?stripped"
      by (simp add: prefix_def)
    with dist have "umap_find (emplace_names ?stripped) x = Some gntr_op"
      by (rule emplace_names_entry)
    then show "strToGeneratorOp (registerAll regs d) x = Inr gntr_op"
      by (simp add: strToGeneratorOp_def umap_at_def tab)
  qed
qed

theorem catalogue_names_resolve_witness:
  "DynamicDispatcher_init example_gate_names example_generator_names = Inr empty_dispatcher \<and>
   distinct (map snd example_gate_names) \<and>
   distinct (map (\<lambda>(gntr_op, gntr_name). drop (length prefix) gntr_name)
     example_generator_names) \<and>
   strToGateOp (registerAll [RegisterGate 0 0 flip_gate] empty_dispatcher) ''PauliX'' = Inr 0 \<and>
   strToGateOp (registerAll [RegisterGate 0 0 flip_gate] empty_dispatcher) ''RX'' = Inr 1 \<and>
   strToGeneratorOp (registerAll [RegisterGate 0 0 flip_gate] empty_dispatcher) ''RX'' = Inr 0 \<and>
   strToGeneratorOp (registerAll [RegisterGate 0 0 flip_gate] empty_dispatcher) ''RY'' = Inr 1"
proof -
  have dg: "distinct (map snd example_gate_names)"
    by (simp add: example_gate_names_def)
  have dn: "distinct (map (\<lambda>(gntr_op, gntr_name). drop (length prefix) gntr_name)
     example_generator_names)"
    by (simp add: example_generator_names_def prefix_def)
  show ?thesis
    using dg dn example_init
      catalogue_names_resolve [of example_gate_names example_generator_names empty_dispatcher
        "[RegisterGate 0 0 flip_gate]"]
    by (simp add: example_gate_names_def example_generator_names_def)
qed

subsection \<open>Kernel names\<close>

lemma init_kernel_names:
  "DynamicDispatcher_init gate_names generator_names = Inr d \<Longrightarrow> kernel_names d = []"
  by (auto simp: DynamicDispatcher_init_def split: sum.splits)

lemma register_kernel_names_distinct:
  "distinct (map fst (kernel_names d)) \<Longrightarrow> distinct (map fst (kernel_names (register d r)))"
  by (cases r) (simp_all add: register_defs umap_emplace_distinct)

lemma registerAll_kernel_names_distinct:
  "distinct (map fst (kernel_names d)) \<Longrightarrow> distinct (map fst (kernel_names (registerAll regs d)))"
  unfolding registerAll_def
  by (induction regs arbitrary: d) (simp_all add: register_kernel_names_distinct)

lemma registerAll_append: "registerAll (regs @ regs') d = registerAll regs' (registerAll regs d)"
  by (simp add: registerAll_def)

lemma count_list_distinct: "distinct xs \<Longrightarrow> x \<in> set xs \<Longrightarrow> count_list xs x = 1"
  by (induction xs) auto

lemma getKernelName_iff:
  "getKernelName d kern = Inr name \<longleftrightarrow> umap_find (kernel_names d) kern = Some name"
  by (simp add: getKernelName_def umap_at_def split: option.splits)

lemma registeredKernels_once:
  assumes "distinct (map fst (kernel_names d))" and "umap_find (kernel_names d) kern = Some name"
  shows "count_list (registeredKernels d) kern = 1"
proof -
  from assms(2) have "umap_find (kernel_names d) kern \<noteq> None"
    by simp
  then have "kern \<in> set (map fst (kernel_names d))"
    by (simp add: umap_find_None_iff)
  with assms(1) show ?thesis
    unfolding registeredKernels_def by (rule count_list_distinct)
qed

lemma kernel_name_kept:
  assumes init: "DynamicDispatcher_init gate_names generator_names = Inr d0"
    and named: "getKernelName (registerAll regs d0) kern = Inr name"
  shows "getKernelName (registerAll regs' (registerAll regs d0)) kern = Inr name \<and>
     count_list (registeredKernels (registerAll regs' (registerAll regs d0))) kern = 1"
proof -
  from init have "distinct (map fst (kernel_names d0))"
    by (simp add: init_kernel_names [of gate_names generator_names])
  then have dist: "distinct (map fst (kernel_names (registerAll regs' (registerAll regs d0))))"
    by (intro registerAll_kernel_names_distinct)
  from named have "umap_find (kernel_names (registerAll regs d0)) kern = Some name"
    by (simp add: getKernelName_iff)
  then have found: "umap_find (kernel_names (registerAll regs' (registerAll regs d0))) kern =
      Some name"
    by (rule registerAll_kernel_name_kept)
  from dist found show ?thesis
    by (simp add: getKernelName_iff registeredKernels_once)
qed

text \<open>
  C10. In a dispatcher built by the constructor and any registrations, naming a kernel
  that already has a name changes nothing; after that and any further registrations
  \<^verbatim>\<open>getKernelName\<close> still returns the first name and \<^verbatim>\<open>registeredKernels\<close> holds
  the kernel exactly once. Naming an unnamed kernel twice leaves it with the first of
  the two names, listed once.
\<close>

theorem kernel_name_first_wins:
  "(DynamicDispatcher_init gate_names generator_names = Inr d0 \<and>
    getKernelName (registerAll regs d0) kern = Inr name \<longrightarrow>
      registerKernelName kern name' (registerAll regs d0) = registerAll regs d0 \<and>
      getKernelName (registerAll regs' (registerKernelName kern name' (registerAll regs d0))) kern =
        Inr name \<and>
      count_list
        (registeredKernels (registerAll regs' (registerKernelName kern name' (registerAll regs d0))))
        kern = 1) \<and>
   (DynamicDispatcher_init gate_names generator_names = Inr d0 \<and>
    \<not> isRegisteredKernel (registerAll regs d0) kern \<longrightarrow>
      getKernelName
        (registerAll regs'
           (registerKernelName kern name' (registerKernelName kern name (registerAll regs d0))))
        kern = Inr name \<and>
      count_list
        (registeredKernels
           (registerAll regs'
              (registerKernelName kern name' (registerKernelName kern name (registerAll regs d0)))))
        kern = 1)"
proof (intro conjI impI)
  assume a: "DynamicDispatcher_init gate_names generator_names = Inr d0 \<and>
    getKernelName (registerAll regs d0) kern = Inr name"
  then have noop: "registerKernelName kern name' (registerAll regs d0) = registerAll regs d0"
    by (simp add: getKernelName_iff registerKernelName_def umap_emplace_occupied)
  then show "registerKernelName kern name' (registerAll regs d0) = registerAll regs d0" .
  from a show "getKernelName
      (registerAll regs' (registerKernelName kern name' (registerAll regs d0))) kern = Inr name"
    unfolding noop by (simp add: kernel_name_kept [of gate_names generator_names])
  from a show "count_list
      (registeredKernels (registerAll regs' (registerKernelName kern name' (registerAll regs d0))))
      kern = 1"
    unfolding noop by (simp add: kernel_name_kept [of gate_names generator_names])
next
  assume a: "DynamicDispatcher_init gate_names generator_names = Inr d0 \<and>
    \<not> isRegisteredKernel (registerAll regs d0) kern"
  let ?regs = "regs @ [RegisterKernelName kern name]"
  have step: "registerKernelName kern name (registerAll regs d0) = registerAll ?regs d0"
    by (simp add: registerAll_def)
  from a have "umap_find (kernel_names (registerAll regs d0)) kern = None"
    by (simp add: isRegisteredKernel_def umap_contains_def split: option.splits)
  then have named: "getKernelName (registerAll ?regs d0) kern = Inr name"
    by (simp add: step [symmetric] getKernelName_iff registerKernelName_def
        umap_find_emplace_absent)
  then have noop: "registerKernelName kern name' (registerAll ?regs d0) = registerAll ?regs d0"
    by (simp add: getKernelName_iff registerKernelName_def umap_emplace_occupied)
  from a named show "getKernelName
        (registerAll regs'
           (registerKernelName kern name' (registerKernelName kern name (registerAll regs d0))))
        kern = Inr name"
    unfolding step noop by (simp add: kernel_name_kept [of gate_names generator_names])
  from a named show "count_list
        (registeredKernels
           (registerAll regs'
              (registerKernelName kern name' (registerKernelName kern name (registerAll regs d0)))))
        kern = 1"
    unfolding step noop by (simp add: kernel_name_kept [of gate_names generator_names])
qed

theorem kernel_name_first_wins_witness:
  "DynamicDispatcher_init example_gate_names example_generator_names = Inr empty_dispatcher \<and>
   getKernelName (registerAll [RegisterKernelName 0 ''Reference''] empty_dispatcher) 0 =
     Inr ''Reference'' \<and>
   registerKernelName 0 ''Other'' (registerAll [RegisterKernelName 0 ''Reference''] empty_dispatcher) =
     registerAll [RegisterKernelName 0 ''Reference''] empty_dispatcher \<and>
   getKernelName
     (registerAll [RegisterKernelName 1 ''Vectorized'', RegisterKernelName 0 ''Third'']
        (registerKernelName 0 ''Other''
           (registerAll [RegisterKernelName 0 ''Reference''] empty_dispatcher))) 0 =
     Inr ''Reference'' \<and>
   count_list
     (registeredKernels
        (registerAll [RegisterKernelName 1 ''Vectorized'', RegisterKernelName 0 ''Third'']
           (registerKernelName 0 ''Other''
              (registerAll [RegisterKernelName 0 ''Reference''] empty_dispatcher)))) 0 = 1 \<and>
   \<not> isRegisteredKernel (registerAll [] empty_dispatcher) 0 \<and>
   getKernelName
     (registerAll [] (registerKernelName 0 ''Other''
        (registerKernelName 0 ''Reference'' (registerAll [] empty_dispatcher)))) 0 =
     Inr ''Reference''"
  using example_init
    kernel_name_first_wins [of example_gate_names example_generator_names empty_dispatcher
      "[RegisterKernelName 0 ''Reference'']" 0 "''Reference''" "''Other''"
      "[RegisterKernelName 1 ''Vectorized'', RegisterKernelName 0 ''Third'']"]
    kernel_name_first_wins [of example_gate_names example_generator_names empty_dispatcher
      "[]" 0 "''Reference''" "''Other''" "[]"]
  by (simp add: empty_dispatcher_def registerAll_def registerKernelName_def getKernelName_def
      registeredKernels_def isRegisteredKernel_def umap_contains_def umap_emplace_def umap_at_def
      umap_find_def)

subsection \<open>Every dispatch runs the first registered callable\<close>

lemma applyGenerator_str_registered:
  "strToGeneratorOp d op_name = Inr gntr_op \<Longrightarrow>
   umap_find (generator_kernels d) (gntr_op, kern) = Some f \<Longrightarrow>
   applyGenerator_str d kern data num_qubits op_name wires adj =
     (Inr (fst (f data num_qubits wires adj)), snd (f data num_qubits wires adj))"
  by (simp add: applyGenerator_str_def split: prod.splits)

lemma applyMatrix_vec_registered:
  "length matrix = 4 ^ length wires \<Longrightarrow> length wires \<le> num_qubits \<Longrightarrow>
   umap_find (matrix_kernels d)
     (if length wires = 1 then SingleQubitOp else if length wires = 2 then TwoQubitOp
      else MultiQubitOp, kern) = Some f \<Longrightarrow>
   applyMatrix_vec matrix_names d kern data num_qubits matrix wires inverse' =
     (Inr (), f data num_qubits matrix wires inverse')"
  by (simp add: applyMatrix_vec_def exp2_twice applyMatrix_ptr_registered)

lemma applyOperations_single:
  "applyOperations d kern data num_qubits [op_name] [wires] [inverse'] [params] =
     applyOperation_str d kern data num_qubits op_name wires inverse' params"
proof (cases "applyOperation_str d kern data num_qubits op_name wires inverse' params")
  case (Pair r data')
  then show ?thesis
    by (cases r)
      (simp_all add: applyOperations_def applyOperations_loop.simps [of _ _ _ _ _ _ _ _ 0]
        applyOperations_loop.simps [of _ _ _ _ _ _ _ _ "Suc 0"])
qed

lemma drop_take_Suc: "j < length xs \<Longrightarrow> drop j (take (Suc j) xs) = [xs ! j]"
  by (simp add: take_Suc_conv_app_nth)

lemma applyOperations_element:
  assumes len: "length ops = length wiress" "length ops = length paramss"
    and j: "j < length ops" "j < length inverses"
    and front: "applyOperations d kern data num_qubits (take j ops) (take j wiress)
      (take j inverses) (take j paramss) = (Inr (), data')"
  shows "applyOperations d kern data num_qubits (take (Suc j) ops) (take (Suc j) wiress)
      (take (Suc j) inverses) (take (Suc j) paramss) =
    applyOperation_str d kern data' num_qubits (ops ! j) (wiress ! j) (inverses ! j) (paramss ! j)"
proof -
  from len j have a: "length (take (Suc j) ops) = length (take (Suc j) wiress)"
    and b: "length (take (Suc j) ops) = length (take (Suc j) paramss)"
    and c: "length (take (Suc j) ops) \<le> length (take (Suc j) inverses)"
    by simp_all
  from len j have last: "drop j (take (Suc j) ops) = [ops ! j]"
    "drop j (take (Suc j) wiress) = [wiress ! j]"
    "drop j (take (Suc j) inverses) = [inverses ! j]"
    "drop j (take (Suc j) paramss) = [paramss ! j]"
    by (simp_all only: drop_take_Suc)
  have first: "take j (take (Suc j) xs) = take j xs" for xs :: "'x list"
    by (simp add: min_def)
  show ?thesis
    by (simp only: applyOperations_split [OF a b c, of d kern data num_qubits j] first front last
        prod.case sum.case applyOperations_single)
qed

lemma applyOperations_noparams_loop_params:
  "length ops = numOperations \<Longrightarrow>
   applyOperations_noparams_loop d kern num_qubits ops wires inverse' numOperations i data =
     applyOperations_loop d kern num_qubits ops wires inverse' (replicate numOperations [])
       numOperations i data"
proof (induction d kern num_qubits ops wires inverse' numOperations i data
    rule: applyOperations_noparams_loop.induct)
  case (1 d kern num_qubits ops wires inverse' numOperations i data)
  show ?case
  proof (cases "i < numOperations \<and> i < length inverse'")
    case False
    then show ?thesis
      by (auto simp: applyOperations_noparams_loop.simps [of _ _ _ _ _ _ _ i]
          applyOperations_loop.simps [of _ _ _ _ _ _ _ _ i])
  next
    case True
    show ?thesis
    proof (cases "applyOperation_str d kern data num_qubits (ops ! i) (wires ! i) (inverse' ! i) []")
      case (Pair r data')
      show ?thesis
      proof (cases r)
        case (Inl e)
        with Pair True show ?thesis
          by (simp add: applyOperations_noparams_loop.simps [of _ _ _ _ _ _ _ i]
              applyOperations_loop.simps [of _ _ _ _ _ _ _ _ i])
      next
        case (Inr u)
        with Pair True "1.IH" "1.prems"
        have "applyOperations_noparams_loop d kern num_qubits ops wires inverse' numOperations
            (i + 1) data' =
          applyOperations_loop d kern num_qubits ops wires inverse' (replicate numOperations [])
            numOperations (i + 1) data'"
          by simp
        with Pair Inr True show ?thesis
          by (simp add: applyOperations_noparams_loop.simps [of _ _ _ _ _ _ _ i]
              applyOperations_loop.simps [of _ _ _ _ _ _ _ _ i])
      qed
    qed
  qed
qed

lemma applyOperations_noparams_params:
  "applyOperations_noparams d kern data num_qubits ops wires inverse' =
     applyOperations d kern data num_qubits ops wires inverse' (replicate (length ops) [])"
  by (simp add: applyOperations_noparams_def applyOperations_def Let_def
      applyOperations_noparams_loop_params)

lemma applyOperations_noparams_single:
  "applyOperations_noparams d kern data num_qubits [op_name] [wires] [inverse'] =
     applyOperation_str d kern data num_qubits op_name wires inverse' []"
  by (simp add: applyOperations_noparams_params applyOperations_single)

lemma applyOperations_noparams_element:
  assumes len: "length ops = length wiress"
    and j: "j < length ops" "j < length inverses"
    and front: "applyOperations_noparams d kern data num_qubits (take j ops) (take j wiress)
      (take j inverses) = (Inr (), data')"
  shows "applyOperations_noparams d kern data num_qubits (take (Suc j) ops) (take (Suc j) wiress)
      (take (Suc j) inverses) =
    applyOperation_str d kern data' num_qubits (ops ! j) (wiress ! j) (inverses ! j) []"
proof -
  let ?ps = "replicate (length ops) ([] :: 'e list)"
  from j have m: "min (length ops) j = j" "min (length ops) (Suc j) = Suc j"
    "min j (length ops) = j" "min (Suc j) (length ops) = Suc j"
    by simp_all
  have tj: "replicate (length (take j ops)) ([] :: 'e list) = take j ?ps"
    and ts: "replicate (length (take (Suc j) ops)) ([] :: 'e list) = take (Suc j) ?ps"
    by (simp_all only: length_take take_replicate m)
  from front have "applyOperations d kern data num_qubits (take j ops) (take j wiress)
      (take j inverses) (take j ?ps) = (Inr (), data')"
    by (simp only: applyOperations_noparams_params tj)
  with len j have "applyOperations d kern data num_qubits (take (Suc j) ops) (take (Suc j) wiress)
      (take (Suc j) inverses) (take (Suc j) ?ps) =
    applyOperation_str d kern data' num_qubits (ops ! j) (wiress ! j) (inverses ! j) (?ps ! j)"
    by (intro applyOperations_element) simp_all
  with j show ?thesis
    by (simp only: applyOperations_noparams_params ts nth_replicate)
qed

text \<open>
  C1. In each of the three callable maps, registering under a key that already has a
  callable returns the dispatcher unchanged. Let \<open>d'\<close> be a dispatcher whose key holds
  a callable, or the dispatcher after a callable was registered under a key that was
  free, and let \<open>regs\<close> be any sequence of later registrations, for this key or
  others. Then every dispatch of that operation and kernel runs that callable:
  \<^verbatim>\<open>applyOperation\<close> by operation and by a name that resolves to it,
  \<^verbatim>\<open>applyOperations\<close> with and without parameters (a batch of one element, and the
  element at any position \<open>j\<close> of a batch, on the memory the elements before it
  left), \<^verbatim>\<open>applyGenerator\<close> by operation and by name, and \<^verbatim>\<open>applyMatrix\<close> on a
  pointer and on a vector, for a call whose wire count selects the operation.
\<close>

theorem first_registration_wins:
  "(umap_find (gate_kernels d) (gate_op, kern) = Some gate_func \<longrightarrow>
      registerGateOperation gate_op kern gate_func' d = d) \<and>
   (umap_find (generator_kernels d) (gntr_op, kern) = Some gntr_func \<longrightarrow>
      registerGeneratorOperation gntr_op kern gntr_func' d = d) \<and>
   (umap_find (matrix_kernels d) (mat_op, kern) = Some mat_func \<longrightarrow>
      registerMatrixOperation mat_op kern mat_func' d = d) \<and>
   (d' = d \<and> umap_find (gate_kernels d) (gate_op, kern) = Some gate_func \<or>
    d' = registerGateOperation gate_op kern gate_func d \<and>
      umap_find (gate_kernels d) (gate_op, kern) = None \<longrightarrow>
      applyOperation_op (registerAll regs d') kern data num_qubits gate_op wires inverse' params =
        (Inr (), gate_func data num_qubits wires inverse' params) \<and>
      (strToGateOp (registerAll regs d') op_name = Inr gate_op \<longrightarrow>
         applyOperation_str (registerAll regs d') kern data num_qubits op_name wires inverse'
             params =
           (Inr (), gate_func data num_qubits wires inverse' params) \<and>
         applyOperations (registerAll regs d') kern data num_qubits [op_name] [wires] [inverse']
             [params] =
           (Inr (), gate_func data num_qubits wires inverse' params) \<and>
         applyOperations_noparams (registerAll regs d') kern data num_qubits [op_name] [wires]
             [inverse'] =
           (Inr (), gate_func data num_qubits wires inverse' [])) \<and>
      (length ops = length wiress \<and> length ops = length paramss \<and> j < length ops \<and>
       j < length inverses \<and> strToGateOp (registerAll regs d') (ops ! j) = Inr gate_op \<and>
       applyOperations (registerAll regs d') kern data num_qubits (take j ops) (take j wiress)
           (take j inverses) (take j paramss) = (Inr (), data_j) \<longrightarrow>
         applyOperations (registerAll regs d') kern data num_qubits (take (Suc j) ops)
             (take (Suc j) wiress) (take (Suc j) inverses) (take (Suc j) paramss) =
           (Inr (), gate_func data_j num_qubits (wiress ! j) (inverses ! j) (paramss ! j))) \<and>
      (length ops = length wiress \<and> j < length ops \<and> j < length inverses \<and>
       strToGateOp (registerAll regs d') (ops ! j) = Inr gate_op \<and>
       applyOperations_noparams (registerAll regs d') kern data num_qubits (take j ops)
           (take j wiress) (take j inverses) = (Inr (), data_j) \<longrightarrow>
         applyOperations_noparams (registerAll regs d') kern data num_qubits (take (Suc j) ops)
             (take (Suc j) wiress) (take (Suc j) inverses) =
           (Inr (), gate_func data_j num_qubits (wiress ! j) (inverses ! j) []))) \<and>
   (d' = d \<and> umap_find (generator_kernels d) (gntr_op, kern) = Some gntr_func \<or>
    d' = registerGeneratorOperation gntr_op kern gntr_func d \<and>
      umap_find (generator_kernels d) (gntr_op, kern) = None \<longrightarrow>
      applyGenerator_op (registerAll regs d') kern data num_qubits gntr_op wires inverse' =
        (Inr (fst (gntr_func data num_qubits wires inverse')),
         snd (gntr_func data num_qubits wires inverse')) \<and>
      (strToGeneratorOp (registerAll regs d') op_name = Inr gntr_op \<longrightarrow>
         applyGenerator_str (registerAll regs d') kern data num_qubits op_name wires inverse' =
           (Inr (fst (gntr_func data num_qubits wires inverse')),
            snd (gntr_func data num_qubits wires inverse')))) \<and>
   ((d' = d \<and> umap_find (matrix_kernels d) (mat_op, kern) = Some mat_func \<or>
     d' = registerMatrixOperation mat_op kern mat_func d \<and>
       umap_find (matrix_kernels d) (mat_op, kern) = None) \<and>
    length wires \<le> num_qubits \<and>
    mat_op = (if length wires = 1 then SingleQubitOp else if length wires = 2 then TwoQubitOp
              else MultiQubitOp) \<longrightarrow>
      applyMatrix_ptr matrix_names (registerAll regs d') kern data num_qubits matrix wires
          inverse' =
        (Inr (), mat_func data num_qubits matrix wires inverse') \<and>
      (length matrix = 4 ^ length wires \<longrightarrow>
         applyMatrix_vec matrix_names (registerAll regs d') kern data num_qubits matrix wires
             inverse' =
           (Inr (), mat_func data num_qubits matrix wires inverse')))"
proof -
  let ?D = "registerAll regs d'"
  have gate_occ: "umap_find (gate_kernels ?D) (gate_op, kern) = Some gate_func"
    if "d' = d \<and> umap_find (gate_kernels d) (gate_op, kern) = Some gate_func \<or>
      d' = registerGateOperation gate_op kern gate_func d \<and>
        umap_find (gate_kernels d) (gate_op, kern) = None"
  proof -
    from that have "umap_find (gate_kernels d') (gate_op, kern) = Some gate_func"
      by (auto simp: registerGateOperation_def umap_find_emplace_absent)
    then show ?thesis
      by (rule registerAll_gate_kept)
  qed
  have gntr_occ: "umap_find (generator_kernels ?D) (gntr_op, kern) = Some gntr_func"
    if "d' = d \<and> umap_find (generator_kernels d) (gntr_op, kern) = Some gntr_func \<or>
      d' = registerGeneratorOperation gntr_op kern gntr_func d \<and>
        umap_find (generator_kernels d) (gntr_op, kern) = None"
  proof -
    from that have "umap_find (generator_kernels d') (gntr_op, kern) = Some gntr_func"
      by (auto simp: registerGeneratorOperation_def umap_find_emplace_absent)
    then show ?thesis
      by (rule registerAll_generator_kept)
  qed
  have mat_occ: "umap_find (matrix_kernels ?D) (mat_op, kern) = Some mat_func"
    if "d' = d \<and> umap_find (matrix_kernels d) (mat_op, kern) = Some mat_func \<or>
      d' = registerMatrixOperation mat_op kern mat_func d \<and>
        umap_find (matrix_kernels d) (mat_op, kern) = None"
  proof -
    from that have "umap_find (matrix_kernels d') (mat_op, kern) = Some mat_func"
      by (auto simp: registerMatrixOperation_def umap_find_emplace_absent)
    then show ?thesis
      by (rule registerAll_matrix_kept)
  qed
  have by_name: "applyOperation_str ?D kern data0 num_qubits name ws flag ps =
      (Inr (), gate_func data0 num_qubits ws flag ps)"
    if "umap_find (gate_kernels ?D) (gate_op, kern) = Some gate_func"
      and "strToGateOp ?D name = Inr gate_op" for data0 name ws flag ps
    using that(2,1) by (rule applyOperation_str_registered)
  show ?thesis
  proof (intro conjI impI)
    assume "umap_find (gate_kernels d) (gate_op, kern) = Some gate_func"
    then show "registerGateOperation gate_op kern gate_func' d = d"
      by (rule registerGateOperation_occupied)
  next
    assume "umap_find (generator_kernels d) (gntr_op, kern) = Some gntr_func"
    then show "registerGeneratorOperation gntr_op kern gntr_func' d = d"
      by (rule registerGeneratorOperation_occupied)
  next
    assume "umap_find (matrix_kernels d) (mat_op, kern) = Some mat_func"
    then show "registerMatrixOperation mat_op kern mat_func' d = d"
      by (rule registerMatrixOperation_occupied)
  next
    assume "d' = d \<and> umap_find (gate_kernels d) (gate_op, kern) = Some gate_func \<or>
      d' = registerGateOperation gate_op kern gate_func d \<and>
        umap_find (gate_kernels d) (gate_op, kern) = None"
    then show "applyOperation_op ?D kern data num_qubits gate_op wires inverse' params =
        (Inr (), gate_func data num_qubits wires inverse' params)"
      by (intro applyOperation_op_registered gate_occ)
  next
    assume "d' = d \<and> umap_find (gate_kernels d) (gate_op, kern) = Some gate_func \<or>
      d' = registerGateOperation gate_op kern gate_func d \<and>
        umap_find (gate_kernels d) (gate_op, kern) = None"
      and "strToGateOp ?D op_name = Inr gate_op"
    then show "applyOperation_str ?D kern data num_qubits op_name wires inverse' params =
        (Inr (), gate_func data num_qubits wires inverse' params)"
      by (intro by_name gate_occ)
  next
    assume "d' = d \<and> umap_find (gate_kernels d) (gate_op, kern) = Some gate_func \<or>
      d' = registerGateOperation gate_op kern gate_func d \<and>
        umap_find (gate_kernels d) (gate_op, kern) = None"
      and "strToGateOp ?D op_name = Inr gate_op"
    then show "applyOperations ?D kern data num_qubits [op_name] [wires] [inverse'] [params] =
        (Inr (), gate_func data num_qubits wires inverse' params)"
      by (simp only: applyOperations_single by_name gate_occ)
  next
    assume "d' = d \<and> umap_find (gate_kernels d) (gate_op, kern) = Some gate_func \<or>
      d' = registerGateOperation gate_op kern gate_func d \<and>
        umap_find (gate_kernels d) (gate_op, kern) = None"
      and "strToGateOp ?D op_name = Inr gate_op"
    then show "applyOperations_noparams ?D kern data num_qubits [op_name] [wires] [inverse'] =
        (Inr (), gate_func data num_qubits wires inverse' [])"
      by (simp only: applyOperations_noparams_single by_name gate_occ)
  next
    assume occ: "d' = d \<and> umap_find (gate_kernels d) (gate_op, kern) = Some gate_func \<or>
      d' = registerGateOperation gate_op kern gate_func d \<and>
        umap_find (gate_kernels d) (gate_op, kern) = None"
      and a: "length ops = length wiress \<and> length ops = length paramss \<and> j < length ops \<and>
       j < length inverses \<and> strToGateOp ?D (ops ! j) = Inr gate_op \<and>
       applyOperations ?D kern data num_qubits (take j ops) (take j wiress)
           (take j inverses) (take j paramss) = (Inr (), data_j)"
    from a have "applyOperations ?D kern data num_qubits (take (Suc j) ops)
        (take (Suc j) wiress) (take (Suc j) inverses) (take (Suc j) paramss) =
      applyOperation_str ?D kern data_j num_qubits (ops ! j) (wiress ! j) (inverses ! j)
        (paramss ! j)"
      by (intro applyOperations_element) simp_all
    with occ a show "applyOperations ?D kern data num_qubits (take (Suc j) ops)
        (take (Suc j) wiress) (take (Suc j) inverses) (take (Suc j) paramss) =
      (Inr (), gate_func data_j num_qubits (wiress ! j) (inverses ! j) (paramss ! j))"
      by (simp only: by_name gate_occ)
  next
    assume occ: "d' = d \<and> umap_find (gate_kernels d) (gate_op, kern) = Some gate_func \<or>
      d' = registerGateOperation gate_op kern gate_func d \<and>
        umap_find (gate_kernels d) (gate_op, kern) = None"
      and a: "length ops = length wiress \<and> j < length ops \<and> j < length inverses \<and>
       strToGateOp ?D (ops ! j) = Inr gate_op \<and>
       applyOperations_noparams ?D kern data num_qubits (take j ops)
           (take j wiress) (take j inverses) = (Inr (), data_j)"
    from a have "applyOperations_noparams ?D kern data num_qubits (take (Suc j) ops)
        (take (Suc j) wiress) (take (Suc j) inverses) =
      applyOperation_str ?D kern data_j num_qubits (ops ! j) (wiress ! j) (inverses ! j) []"
      by (intro applyOperations_noparams_element) simp_all
    with occ a show "applyOperations_noparams ?D kern data num_qubits (take (Suc j) ops)
        (take (Suc j) wiress) (take (Suc j) inverses) =
      (Inr (), gate_func data_j num_qubits (wiress ! j) (inverses ! j) [])"
      by (simp only: by_name gate_occ)
  next
    assume "d' = d \<and> umap_find (generator_kernels d) (gntr_op, kern) = Some gntr_func \<or>
      d' = registerGeneratorOperation gntr_op kern gntr_func d \<and>
        umap_find (generator_kernels d) (gntr_op, kern) = None"
    then show "applyGenerator_op ?D kern data num_qubits gntr_op wires inverse' =
        (Inr (fst (gntr_func data num_qubits wires inverse')),
         snd (gntr_func data num_qubits wires inverse'))"
      by (intro applyGenerator_op_registered gntr_occ)
  next
    assume "d' = d \<and> umap_find (generator_kernels d) (gntr_op, kern) = Some gntr_func \<or>
      d' = registerGeneratorOperation gntr_op kern gntr_func d \<and>
        umap_find (generator_kernels d) (gntr_op, kern) = None"
      and name: "strToGeneratorOp ?D op_name = Inr gntr_op"
    then have "umap_find (generator_kernels ?D) (gntr_op, kern) = Some gntr_func"
      by (intro gntr_occ)
    with name show "applyGenerator_str ?D kern data num_qubits op_name wires inverse' =
        (Inr (fst (gntr_func data num_qubits wires inverse')),
         snd (gntr_func data num_qubits wires inverse'))"
      by (rule applyGenerator_str_registered)
  next
    assume a: "(d' = d \<and> umap_find (matrix_kernels d) (mat_op, kern) = Some mat_func \<or>
     d' = registerMatrixOperation mat_op kern mat_func d \<and>
       umap_find (matrix_kernels d) (mat_op, kern) = None) \<and>
      length wires \<le> num_qubits \<and>
      mat_op = (if length wires = 1 then SingleQubitOp else if length wires = 2 then TwoQubitOp
              else MultiQubitOp)"
    from a [THEN conjunct1] have "umap_find (matrix_kernels ?D) (mat_op, kern) = Some mat_func"
      by (rule mat_occ)
    with a show "applyMatrix_ptr matrix_names ?D kern data num_qubits matrix wires inverse' =
        (Inr (), mat_func data num_qubits matrix wires inverse')"
      by (simp add: applyMatrix_ptr_registered)
  next
    assume a: "(d' = d \<and> umap_find (matrix_kernels d) (mat_op, kern) = Some mat_func \<or>
     d' = registerMatrixOperation mat_op kern mat_func d \<and>
       umap_find (matrix_kernels d) (mat_op, kern) = None) \<and>
      length wires \<le> num_qubits \<and>
      mat_op = (if length wires = 1 then SingleQubitOp else if length wires = 2 then TwoQubitOp
              else MultiQubitOp)"
      and size: "length matrix = 4 ^ length wires"
    from a [THEN conjunct1] have "umap_find (matrix_kernels ?D) (mat_op, kern) = Some mat_func"
      by (rule mat_occ)
    with a size show "applyMatrix_vec matrix_names ?D kern data num_qubits matrix wires inverse' =
        (Inr (), mat_func data num_qubits matrix wires inverse')"
      by (simp add: applyMatrix_vec_registered)
  qed
qed

lemmas registration_eval =
  empty_dispatcher_def registerAll_def register_defs umap_emplace_def applyOperations_def
  applyOperations_noparams_def applyOperations_loop.simps applyOperations_noparams_loop.simps

theorem first_registration_wins_witness:
  "umap_find (gate_kernels example_dispatcher) (0, 0) = Some flip_gate \<and>
   registerGateOperation 0 0 clear_gate example_dispatcher = example_dispatcher \<and>
   applyOperation_op (registerAll [RegisterGate 0 0 clear_gate] example_dispatcher) 0 [1, 0] 1 0 [0]
       False [] = (Inr (), [0, 1]) \<and>
   strToGateOp (registerAll [RegisterGate 0 0 clear_gate] example_dispatcher) ''PauliX'' = Inr 0 \<and>
   applyOperation_str (registerAll [RegisterGate 0 0 clear_gate] example_dispatcher) 0 [1, 0] 1
       ''PauliX'' [0] False [] = (Inr (), [0, 1]) \<and>
   applyOperations (registerAll [RegisterGate 0 0 clear_gate] example_dispatcher) 0 [1, 0] 1
       [''PauliX''] [[0]] [False] [[]] = (Inr (), [0, 1]) \<and>
   applyOperations_noparams (registerAll [RegisterGate 0 0 clear_gate] example_dispatcher) 0 [1, 0]
       1 [''PauliX''] [[0]] [False] = (Inr (), [0, 1]) \<and>
   applyOperations (registerAll [RegisterGate 0 0 clear_gate] example_dispatcher) 0 [1, 0] 1
       (take 2 [''PauliX'', ''PauliX'', ''PauliX'']) (take 2 [[0], [0], [0]])
       (take 2 [False, False, False]) (take 2 [[], [], []]) = (Inr (), [1, 0]) \<and>
   applyOperations (registerAll [RegisterGate 0 0 clear_gate] example_dispatcher) 0 [1, 0] 1
       (take (Suc 2) [''PauliX'', ''PauliX'', ''PauliX'']) (take (Suc 2) [[0], [0], [0]])
       (take (Suc 2) [False, False, False]) (take (Suc 2) [[], [], []]) = (Inr (), [0, 1]) \<and>
   applyOperations_noparams (registerAll [RegisterGate 0 0 clear_gate] example_dispatcher) 0
       [1, 0] 1 (take (Suc 2) [''PauliX'', ''PauliX'', ''PauliX'']) (take (Suc 2) [[0], [0], [0]])
       (take (Suc 2) [False, False, False]) = (Inr (), [0, 1]) \<and>
   umap_find (gate_kernels empty_dispatcher) (0, 0) = None \<and>
   applyOperation_op
       (registerAll [RegisterGate 0 0 clear_gate] (registerGateOperation 0 0 flip_gate empty_dispatcher))
       0 [1, 0] 1 0 [0] False [] = (Inr (), [0, 1]) \<and>
   applyOperation_str
       (registerAll [RegisterGate 0 0 clear_gate] (registerGateOperation 0 0 flip_gate empty_dispatcher))
       0 [1, 0] 1 ''PauliX'' [0] False [] = (Inr (), [0, 1]) \<and>
   applyOperations
       (registerAll [RegisterGate 0 0 clear_gate] (registerGateOperation 0 0 flip_gate empty_dispatcher))
       0 [1, 0] 1 [''PauliX''] [[0]] [False] [[]] = (Inr (), [0, 1]) \<and>
   umap_find (generator_kernels example_dispatcher) (0, 0) = Some flip_generator \<and>
   registerGeneratorOperation 0 0 clear_generator example_dispatcher = example_dispatcher \<and>
   applyGenerator_op (registerAll [RegisterGenerator 0 0 clear_generator] example_dispatcher) 0
       [1, 0] 1 0 [0] False = (Inr (- 1), [0, 1]) \<and>
   strToGeneratorOp (registerAll [RegisterGenerator 0 0 clear_generator] example_dispatcher) ''RX'' =
     Inr 0 \<and>
   applyGenerator_str (registerAll [RegisterGenerator 0 0 clear_generator] example_dispatcher) 0
       [1, 0] 1 ''RX'' [0] False = (Inr (- 1), [0, 1]) \<and>
   umap_find (generator_kernels empty_dispatcher) (0, 0) = None \<and>
   applyGenerator_op
       (registerAll [RegisterGenerator 0 0 clear_generator]
          (registerGeneratorOperation 0 0 flip_generator empty_dispatcher))
       0 [1, 0] 1 0 [0] False = (Inr (- 1), [0, 1]) \<and>
   applyGenerator_str
       (registerAll [RegisterGenerator 0 0 clear_generator]
          (registerGeneratorOperation 0 0 flip_generator empty_dispatcher))
       0 [1, 0] 1 ''RX'' [0] False = (Inr (- 1), [0, 1]) \<and>
   umap_find (matrix_kernels example_dispatcher) (SingleQubitOp, 0) = Some (mark_matrix 1) \<and>
   registerMatrixOperation SingleQubitOp 0 (mark_matrix 2) example_dispatcher = example_dispatcher \<and>
   applyMatrix_ptr example_matrix_names
       (registerAll [RegisterMatrix SingleQubitOp 0 (mark_matrix 2)] example_dispatcher)
       0 [1, 0] 1 [1, 0, 0, 1] [0] False = (Inr (), [1, 1, 0]) \<and>
   applyMatrix_vec example_matrix_names
       (registerAll [RegisterMatrix SingleQubitOp 0 (mark_matrix 2)] example_dispatcher)
       0 [1, 0] 1 [1, 0, 0, 1] [0] False = (Inr (), [1, 1, 0]) \<and>
   umap_find (matrix_kernels empty_dispatcher) (SingleQubitOp, 0) = None \<and>
   applyMatrix_ptr example_matrix_names
       (registerAll [RegisterMatrix SingleQubitOp 0 (mark_matrix 2)]
          (registerMatrixOperation SingleQubitOp 0 (mark_matrix 1) empty_dispatcher))
       0 [1, 0] 1 [1, 0, 0, 1] [0] False = (Inr (), [1, 1, 0]) \<and>
   applyMatrix_vec example_matrix_names
       (registerAll [RegisterMatrix SingleQubitOp 0 (mark_matrix 2)]
          (registerMatrixOperation SingleQubitOp 0 (mark_matrix 1) empty_dispatcher))
       0 [1, 0] 1 [1, 0, 0, 1] [0] False = (Inr (), [1, 1, 0])"
proof -
  note inst = first_registration_wins
    [where kern = 0 and gate_op = 0 and gntr_op = 0 and mat_op = SingleQubitOp
      and gate_func = flip_gate and gate_func' = clear_gate and gntr_func = flip_generator
      and gntr_func' = clear_generator and mat_func = "mark_matrix 1"
      and mat_func' = "mark_matrix 2" and data = "[1, 0]" and num_qubits = 1 and wires = "[0]"
      and inverse' = False and params = "[]" and matrix_names = example_matrix_names
      and matrix = "[1, 0, 0, 1]" and ops = "[''PauliX'', ''PauliX'', ''PauliX'']"
      and wiress = "[[0], [0], [0]]" and inverses = "[False, False, False]"
      and paramss = "[[], [], []]" and j = 2 and data_j = "[1, 0]"]
  note kept = inst [where d = example_dispatcher and d' = example_dispatcher]
  have noop: "registerGateOperation 0 0 clear_gate example_dispatcher = example_dispatcher \<and>
      registerGeneratorOperation 0 0 clear_generator example_dispatcher = example_dispatcher \<and>
      registerMatrixOperation SingleQubitOp 0 (mark_matrix 2) example_dispatcher =
        example_dispatcher"
    using kept [where regs = "[]" and op_name = "''PauliX''"]
    by (simp add: example_dispatcher_def umap_find_def)
  have gate_kept: "applyOperation_op (registerAll [RegisterGate 0 0 clear_gate] example_dispatcher) 0 [1, 0] 1 0 [0]
       False [] = (Inr (), [0, 1]) \<and>
   strToGateOp (registerAll [RegisterGate 0 0 clear_gate] example_dispatcher) ''PauliX'' = Inr 0 \<and>
   applyOperation_str (registerAll [RegisterGate 0 0 clear_gate] example_dispatcher) 0 [1, 0] 1
       ''PauliX'' [0] False [] = (Inr (), [0, 1]) \<and>
   applyOperations (registerAll [RegisterGate 0 0 clear_gate] example_dispatcher) 0 [1, 0] 1
       [''PauliX''] [[0]] [False] [[]] = (Inr (), [0, 1]) \<and>
   applyOperations_noparams (registerAll [RegisterGate 0 0 clear_gate] example_dispatcher) 0 [1, 0]
       1 [''PauliX''] [[0]] [False] = (Inr (), [0, 1]) \<and>
   applyOperations (registerAll [RegisterGate 0 0 clear_gate] example_dispatcher) 0 [1, 0] 1
       (take 2 [''PauliX'', ''PauliX'', ''PauliX'']) (take 2 [[0], [0], [0]])
       (take 2 [False, False, False]) (take 2 [[], [], []]) = (Inr (), [1, 0]) \<and>
   applyOperations (registerAll [RegisterGate 0 0 clear_gate] example_dispatcher) 0 [1, 0] 1
       (take (Suc 2) [''PauliX'', ''PauliX'', ''PauliX'']) (take (Suc 2) [[0], [0], [0]])
       (take (Suc 2) [False, False, False]) (take (Suc 2) [[], [], []]) = (Inr (), [0, 1]) \<and>
   applyOperations_noparams (registerAll [RegisterGate 0 0 clear_gate] example_dispatcher) 0
       [1, 0] 1 (take (Suc 2) [''PauliX'', ''PauliX'', ''PauliX'']) (take (Suc 2) [[0], [0], [0]])
       (take (Suc 2) [False, False, False]) = (Inr (), [0, 1])"
    using kept [where regs = "[RegisterGate 0 0 clear_gate]" and op_name = "''PauliX''",
        THEN conjunct2, THEN conjunct2, THEN conjunct2, THEN conjunct1]
    by (simp add: example_eval registration_eval)
  have gate_first: "applyOperation_op
       (registerAll [RegisterGate 0 0 clear_gate] (registerGateOperation 0 0 flip_gate empty_dispatcher))
       0 [1, 0] 1 0 [0] False [] = (Inr (), [0, 1]) \<and>
   applyOperation_str
       (registerAll [RegisterGate 0 0 clear_gate] (registerGateOperation 0 0 flip_gate empty_dispatcher))
       0 [1, 0] 1 ''PauliX'' [0] False [] = (Inr (), [0, 1]) \<and>
   applyOperations
       (registerAll [RegisterGate 0 0 clear_gate] (registerGateOperation 0 0 flip_gate empty_dispatcher))
       0 [1, 0] 1 [''PauliX''] [[0]] [False] [[]] = (Inr (), [0, 1])"
    using inst [where d = empty_dispatcher
        and d' = "registerGateOperation 0 0 flip_gate empty_dispatcher"
        and regs = "[RegisterGate 0 0 clear_gate]" and op_name = "''PauliX''",
        THEN conjunct2, THEN conjunct2, THEN conjunct2, THEN conjunct1]
    by (simp add: example_eval registration_eval)
  have gntr_kept: "applyGenerator_op (registerAll [RegisterGenerator 0 0 clear_generator] example_dispatcher) 0
       [1, 0] 1 0 [0] False = (Inr (- 1), [0, 1]) \<and>
   strToGeneratorOp (registerAll [RegisterGenerator 0 0 clear_generator] example_dispatcher) ''RX'' =
     Inr 0 \<and>
   applyGenerator_str (registerAll [RegisterGenerator 0 0 clear_generator] example_dispatcher) 0
       [1, 0] 1 ''RX'' [0] False = (Inr (- 1), [0, 1])"
    using kept [where regs = "[RegisterGenerator 0 0 clear_generator]" and op_name = "''RX''",
        THEN conjunct2, THEN conjunct2, THEN conjunct2, THEN conjunct2, THEN conjunct1]
    by (simp add: example_eval registration_eval)
  have gntr_first: "applyGenerator_op
       (registerAll [RegisterGenerator 0 0 clear_generator]
          (registerGeneratorOperation 0 0 flip_generator empty_dispatcher))
       0 [1, 0] 1 0 [0] False = (Inr (- 1), [0, 1]) \<and>
   applyGenerator_str
       (registerAll [RegisterGenerator 0 0 clear_generator]
          (registerGeneratorOperation 0 0 flip_generator empty_dispatcher))
       0 [1, 0] 1 ''RX'' [0] False = (Inr (- 1), [0, 1])"
    using inst [where d = empty_dispatcher
        and d' = "registerGeneratorOperation 0 0 flip_generator empty_dispatcher"
        and regs = "[RegisterGenerator 0 0 clear_generator]" and op_name = "''RX''",
        THEN conjunct2, THEN conjunct2, THEN conjunct2, THEN conjunct2, THEN conjunct1]
    by (simp add: example_eval registration_eval)
  have mat_kept: "applyMatrix_ptr example_matrix_names
       (registerAll [RegisterMatrix SingleQubitOp 0 (mark_matrix 2)] example_dispatcher)
       0 [1, 0] 1 [1, 0, 0, 1] [0] False = (Inr (), [1, 1, 0]) \<and>
   applyMatrix_vec example_matrix_names
       (registerAll [RegisterMatrix SingleQubitOp 0 (mark_matrix 2)] example_dispatcher)
       0 [1, 0] 1 [1, 0, 0, 1] [0] False = (Inr (), [1, 1, 0])"
    using kept [where regs = "[RegisterMatrix SingleQubitOp 0 (mark_matrix 2)]"
        and op_name = "''RX''",
        THEN conjunct2, THEN conjunct2, THEN conjunct2, THEN conjunct2, THEN conjunct2]
    by (simp add: example_eval registration_eval)
  have mat_first: "applyMatrix_ptr example_matrix_names
       (registerAll [RegisterMatrix SingleQubitOp 0 (mark_matrix 2)]
          (registerMatrixOperation SingleQubitOp 0 (mark_matrix 1) empty_dispatcher))
       0 [1, 0] 1 [1, 0, 0, 1] [0] False = (Inr (), [1, 1, 0]) \<and>
   applyMatrix_vec example_matrix_names
       (registerAll [RegisterMatrix SingleQubitOp 0 (mark_matrix 2)]
          (registerMatrixOperation SingleQubitOp 0 (mark_matrix 1) empty_dispatcher))
       0 [1, 0] 1 [1, 0, 0, 1] [0] False = (Inr (), [1, 1, 0])"
    using inst [where d = empty_dispatcher
        and d' = "registerMatrixOperation SingleQubitOp 0 (mark_matrix 1) empty_dispatcher"
        and regs = "[RegisterMatrix SingleQubitOp 0 (mark_matrix 2)]" and op_name = "''RX''",
        THEN conjunct2, THEN conjunct2, THEN conjunct2, THEN conjunct2, THEN conjunct2]
    by (simp add: example_eval registration_eval)
  have g: "umap_find (gate_kernels example_dispatcher) (0, 0) = Some flip_gate"
    and n: "umap_find (generator_kernels example_dispatcher) (0, 0) = Some flip_generator"
    and m: "umap_find (matrix_kernels example_dispatcher) (SingleQubitOp, 0) = Some (mark_matrix 1)"
    by (simp_all add: example_dispatcher_def umap_find_def)
  have g0: "umap_find (gate_kernels empty_dispatcher) (0, 0) = None"
    and n0: "umap_find (generator_kernels empty_dispatcher) (0, 0) = None"
    and m0: "umap_find (matrix_kernels empty_dispatcher) (SingleQubitOp, 0) = None"
    by (simp_all add: empty_dispatcher_def umap_find_def)
  from g n m g0 n0 m0 noop gate_kept gate_first gntr_kept gntr_first mat_kept mat_first
  show ?thesis
    by (simp only: simp_thms)
qed

end
